theory Spec2Isabelle
  imports Main "HOL-Library.Sublist"
begin

section \<open>Python values\<close>

text \<open>
  Python \<open>str\<close> values are modelled as \<^typ>\<open>string\<close>. The source's text is read as
  UTF-8: an ASCII character is one \<^typ>\<open>char\<close>, and the few non-ASCII glyphs the source
  names (check marks, crosses, the no-break space) are written as their UTF-8 bytes. The
  Unicode-aware primitives of Python (\<open>\d\<close>, \<open>\s\<close>, \<open>strip\<close>, \<open>split\<close>, \<open>lower\<close>) are
  modelled on the ASCII range.
\<close>

datatype error = KeyError | IndexError | ValueError

definition is_space :: "char \<Rightarrow> bool" where
  "is_space c = (c \<in> set [CHR '' '', CHR 0x09, CHR 0x0A, CHR 0x0B, CHR 0x0C, CHR 0x0D,
                           CHR 0x1C, CHR 0x1D, CHR 0x1E, CHR 0x1F])"

definition is_digit :: "char \<Rightarrow> bool" where
  "is_digit c = (c \<in> set ''0123456789'')"

definition strip :: "string \<Rightarrow> string" where
  "strip s = rev (dropWhile is_space (rev (dropWhile is_space s)))"

definition lower_char :: "char \<Rightarrow> char" where
  "lower_char c =
     (case map_of (zip ''ABCDEFGHIJKLMNOPQRSTUVWXYZ'' ''abcdefghijklmnopqrstuvwxyz'') c of
        Some d \<Rightarrow> d
      | None \<Rightarrow> c)"

definition lower :: "string \<Rightarrow> string" where
  "lower s = map lower_char s"

text \<open>\<open>s.startswith(p)\<close>\<close>

fun startswith :: "string \<Rightarrow> string \<Rightarrow> bool" where
  "startswith s [] = True"
| "startswith [] (p # ps) = False"
| "startswith (c # cs) (p # ps) = (c = p \<and> startswith cs ps)"

text \<open>\<open>sub in s\<close>\<close>

fun contains :: "string \<Rightarrow> string \<Rightarrow> bool" where
  "contains sub [] = (sub = [])"
| "contains sub (c # cs) = (startswith (c # cs) sub \<or> contains sub cs)"

text \<open>
  A regular expression of the source is modelled by a matcher: a function that, given the
  text from some position on, returns the length of the match that starts there, if any.
  None of the source's expressions matches the empty string where it is used for
  \<open>re.sub\<close>. \<open>re_sub\<close> is \<open>re.sub(pattern, repl, s)\<close> for a constant replacement:
  leftmost, non-overlapping matches, left to right. The counter is the number of
  characters of the current match still to be skipped.
\<close>

type_synonym matcher = "string \<Rightarrow> nat option"

fun re_sub_from :: "matcher \<Rightarrow> string \<Rightarrow> nat \<Rightarrow> string \<Rightarrow> string" where
  "re_sub_from m r k [] = []"
| "re_sub_from m r (Suc k) (c # cs) = re_sub_from m r k cs"
| "re_sub_from m r 0 (c # cs) =
     (case m (c # cs) of
        Some (Suc n) \<Rightarrow> r @ re_sub_from m r n cs
      | _ \<Rightarrow> c # re_sub_from m r 0 cs)"

definition re_sub :: "matcher \<Rightarrow> string \<Rightarrow> string \<Rightarrow> string" where
  "re_sub m r s = re_sub_from m r 0 s"

text \<open>\<open>re.search(pattern, s)\<close>: the leftmost match, as the text from its start on and its length.\<close>

fun re_search :: "matcher \<Rightarrow> string \<Rightarrow> (string \<times> nat) option" where
  "re_search m [] = (case m [] of Some n \<Rightarrow> Some ([], n) | None \<Rightarrow> None)"
| "re_search m (c # cs) =
     (case m (c # cs) of Some n \<Rightarrow> Some (c # cs, n) | None \<Rightarrow> re_search m cs)"

text \<open>The matcher of a literal, and \<open>s.replace(old, new)\<close> for a non-empty \<open>old\<close>.\<close>

definition lit :: "string \<Rightarrow> matcher" where
  "lit p s = (if startswith s p then Some (length p) else None)"

definition replace :: "string \<Rightarrow> string \<Rightarrow> string \<Rightarrow> string" where
  "replace old new s = (if old = [] then new @ concat (map (\<lambda>c. c # new) s)
                        else re_sub (lit old) new s)"

text \<open>\<open>s.count(sub)\<close>: the number of non-overlapping occurrences, for a non-empty \<open>sub\<close>.\<close>

fun count_from :: "string \<Rightarrow> nat \<Rightarrow> string \<Rightarrow> nat" where
  "count_from sub k [] = 0"
| "count_from sub (Suc k) (c # cs) = count_from sub k cs"
| "count_from sub 0 (c # cs) =
     (if startswith (c # cs) sub then Suc (count_from sub (length sub - 1) cs)
      else count_from sub 0 cs)"

definition count_str :: "string \<Rightarrow> string \<Rightarrow> nat" where
  "count_str sub s = count_from sub 0 s"

text \<open>\<open>sep.join(xs)\<close>\<close>

fun join :: "string \<Rightarrow> string list \<Rightarrow> string" where
  "join sep [] = []"
| "join sep [x] = x"
| "join sep (x # y # ys) = x @ sep @ join sep (y # ys)"

text \<open>\<open>s.split()\<close>: the maximal runs of non-space characters.\<close>

fun split_from :: "string \<Rightarrow> string \<Rightarrow> string list" where
  "split_from acc [] = (if acc = [] then [] else [acc])"
| "split_from acc (c # cs) =
     (if is_space c then (if acc = [] then split_from [] cs else acc # split_from [] cs)
      else split_from (acc @ [c]) cs)"

definition split :: "string \<Rightarrow> string list" where
  "split s = split_from [] s"

text \<open>
  \<open>int(s)\<close> on a string: surrounding white space, an optional sign, decimal digits with
  single underscores between them; anything else raises \<open>ValueError\<close> (\<open>None\<close> here).
\<close>

definition digit_val :: "char \<Rightarrow> nat" where
  "digit_val c = (case map_of (zip ''0123456789'' [0, 1, 2, 3, 4, 5, 6, 7, 8, 9]) c of
                    Some d \<Rightarrow> d | None \<Rightarrow> 0)"

definition digits_val :: "string \<Rightarrow> nat" where
  "digits_val ds = foldl (\<lambda>a c. 10 * a + digit_val c) 0 ds"

fun digit_groups :: "bool \<Rightarrow> string \<Rightarrow> bool" where
  "digit_groups after_digit [] = after_digit"
| "digit_groups after_digit (c # cs) =
     (if is_digit c then digit_groups True cs
      else if c = CHR ''_'' \<and> after_digit then digit_groups False cs
      else False)"

definition py_int :: "string \<Rightarrow> int option" where
  "py_int s =
     (let t = strip s;
          neg = startswith t ''-'';
          u = (if startswith t ''-'' \<or> startswith t ''+'' then tl t else t)
      in if digit_groups False u
         then Some (if neg then - int (digits_val (filter is_digit u))
                    else int (digits_val (filter is_digit u)))
         else None)"

text \<open>
  A Python list subscript \<open>xs[i]\<close>: the position it denotes, where \<open>-1\<close> is the last
  element; \<open>None\<close> stands for the \<open>IndexError\<close> of a subscript out of range.
\<close>

definition py_index :: "'a list \<Rightarrow> int \<Rightarrow> nat option" where
  "py_index xs i =
     (if 0 \<le> i \<and> i < int (length xs) then Some (nat i)
      else if i < 0 \<and> - int (length xs) \<le> i then Some (nat (int (length xs) + i))
      else None)"

section \<open>The parsed table tree\<close>

text \<open>
  \<open>soupify\<close> parses the markup with an external library. The tree the functions below
  read is the one of the data model: an ordered sequence of rows (\<open>tr\<close>), each an ordered
  sequence of cells (\<open>td\<close>); tables nested in a cell are outside this model. A cell
  carries its text (math removed), its \<open>cols\<close> attribute when it has one, and the \<open>sha\<close>
  attribute (when present) of each citation element (\<open>cit\<close>) in it.
\<close>

record cell =
  cell_text :: string
  cell_cols :: "string option"
  cell_cits :: "string option list"

type_synonym soup = "cell list list"

text \<open>\<open>len(table_soup.find_all("td")) >= 4 and len(table_soup.find_all("tr")) >= 2\<close>\<close>

definition has_at_least_2_cols :: "soup \<Rightarrow> bool" where
  "has_at_least_2_cols table_soup = (4 \<le> length (concat table_soup) \<and> 2 \<le> length table_soup)"

definition has_at_least_2_rows :: "soup \<Rightarrow> bool" where
  "has_at_least_2_rows table_soup = (2 \<le> length table_soup)"

text \<open>\<open>int(cell.attrs.get("cols", "1"))\<close>\<close>

definition num_spanning_cols :: "cell \<Rightarrow> int option" where
  "num_spanning_cols c = (case cell_cols c of None \<Rightarrow> Some 1 | Some s \<Rightarrow> py_int s)"

text \<open>
  The column count of \<open>soup_to_json\<close>: the maximum, over the rows, of the number of cells
  and of the sum of the cells' spans. \<open>int\<close> of a malformed attribute and \<open>max\<close> of an
  empty list raise \<open>ValueError\<close>.
\<close>

fun those_list :: "'a option list \<Rightarrow> 'a list option" where
  "those_list [] = Some []"
| "those_list (x # xs) =
     (case x of None \<Rightarrow> None
      | Some y \<Rightarrow> (case those_list xs of None \<Rightarrow> None | Some ys \<Rightarrow> Some (y # ys)))"

definition max_list :: "int list \<Rightarrow> int option" where
  "max_list xs = (case xs of [] \<Rightarrow> None | y # ys \<Rightarrow> Some (foldl max y ys))"

definition row_span_sum :: "cell list \<Rightarrow> int option" where
  "row_span_sum r = map_option sum_list (those_list (map num_spanning_cols r))"

definition num_cols :: "soup \<Rightarrow> error + int" where
  "num_cols table_soup =
     (case those_list (map row_span_sum table_soup) of
        None \<Rightarrow> Inl ValueError
      | Some sums \<Rightarrow>
          (case max_list (map (\<lambda>r. int (length r)) table_soup @ sums) of
             None \<Rightarrow> Inl ValueError
           | Some n \<Rightarrow> Inr n))"

section \<open>Citation markers and the row-to-bibliography mapper\<close>

text \<open>
  The citation marker \<open>{{cite:[a-f\d]{7}}}\<close>: the tag, 7 characters that are digits or
  lower-case hexadecimal letters, and the closing braces; 16 characters in all.
\<close>

definition is_hex :: "char \<Rightarrow> bool" where
  "is_hex c = (c \<in> set ''abcdef'' \<or> is_digit c)"

definition cite_marker :: matcher where
  "cite_marker s =
     (if startswith s ''{{cite:'' \<and> length (take 7 (drop 7 s)) = 7 \<and>
         list_all is_hex (take 7 (drop 7 s)) \<and> startswith (drop 14 s) ''}}''
      then Some 16 else None)"

text \<open>\<open>re.search("{{cite:([a-f\d]{7})}}", cell_val)\<close>, as its group 1 (the short key).\<close>

definition cite_key :: "string \<Rightarrow> string option" where
  "cite_key cell_val =
     (case re_search cite_marker cell_val of
        None \<Rightarrow> None
      | Some (t, n) \<Rightarrow> Some (take 7 (drop 7 t)))"

text \<open>
  An entry of \<open>row_bib_map\<close>. The keys \<open>title\<close> and \<open>abstract\<close> are absent (\<open>None\<close>)
  until bibliographic metadata is merged in; when present their value may be null.
\<close>

record bib_row =
  bib_hash_or_arxiv_id :: string
  row :: nat
  corpus_id :: int
  row_type :: string
  title :: "string option option"
  abstract :: "string option option"

type_synonym table_dict = "(string \<times> string list) list"

definition ref_entry :: "string \<Rightarrow> nat \<Rightarrow> bib_row" where
  "ref_entry bib_hash_match i =
     \<lparr>bib_hash_or_arxiv_id = bib_hash_match, row = i, corpus_id = - 1, row_type = ''ref'',
      title = None, abstract = None\<rparr>"

definition ours_entry :: "string \<Rightarrow> nat \<Rightarrow> bib_row" where
  "ours_entry paper_id i =
     \<lparr>bib_hash_or_arxiv_id = paper_id, row = i, corpus_id = - 1, row_type = ''ours'',
      title = None, abstract = None\<rparr>"

text \<open>
  \<open>{bib_ref[:7]: bib_ref for bib_ref in bib_hashes if bib_ref is not None}\<close>: of two
  hashes with the same prefix the later one stays.
\<close>

definition cite_id_map :: "string option list \<Rightarrow> (string \<rightharpoonup> string)" where
  "cite_id_map bib_hashes =
     map_of (rev (map (\<lambda>bib_ref. (take 7 bib_ref, bib_ref)) (List.map_filter id bib_hashes)))"

text \<open>
  The loop of \<open>get_table_row_bib_map\<close> over the cells of the first column, with the row
  index, the entries so far and the last candidate for the containing paper's row.
\<close>

fun bib_map_rows ::
  "(string \<rightharpoonup> string) \<Rightarrow> string \<Rightarrow> nat \<Rightarrow> string list \<Rightarrow> bib_row list \<Rightarrow> bib_row option \<Rightarrow>
     error + (bib_row list \<times> bib_row option)" where
  "bib_map_rows m paper_id i [] table_row_bib_map ours_row = Inr (table_row_bib_map, ours_row)"
| "bib_map_rows m paper_id i (cell_val # rest) table_row_bib_map ours_row =
     (case cite_key cell_val of
        None \<Rightarrow>
          if contains ''standard'' (lower cell_val)
          then bib_map_rows m paper_id (Suc i) rest table_row_bib_map ours_row
          else bib_map_rows m paper_id (Suc i) rest table_row_bib_map (Some (ours_entry paper_id i))
      | Some cite_id \<Rightarrow>
          (case m cite_id of
             None \<Rightarrow> Inl KeyError
           | Some bib_hash_match \<Rightarrow>
               bib_map_rows m paper_id (Suc i) rest
                 (table_row_bib_map @ [ref_entry bib_hash_match i]) ours_row))"

text \<open>
  \<open>pd.DataFrame(table_json)\<close> raises \<open>ValueError\<close> when the columns differ in length, and
  \<open>table_df.columns[0]\<close> raises \<open>IndexError\<close> when there is no column.
\<close>

definition same_lengths :: "table_dict \<Rightarrow> bool" where
  "same_lengths d = (case d of [] \<Rightarrow> True
                     | (c, vals) # rest \<Rightarrow> list_all (\<lambda>(c', vals'). length vals' = length vals) rest)"

definition get_table_row_bib_map ::
  "table_dict \<Rightarrow> string option list \<Rightarrow> string \<Rightarrow> error + bib_row list" where
  "get_table_row_bib_map table_json bib_hashes paper_id =
     (if \<not> same_lengths table_json then Inl ValueError
      else case table_json of
        [] \<Rightarrow> Inl IndexError
      | (c, vals) # rest \<Rightarrow>
          (case bib_map_rows (cite_id_map bib_hashes) paper_id 0 vals [] None of
             Inl e \<Rightarrow> Inl e
           | Inr (table_row_bib_map, ours_row) \<Rightarrow>
               Inr (case ours_row of None \<Rightarrow> table_row_bib_map
                    | Some r \<Rightarrow> table_row_bib_map @ [r])))"

definition plain_cell :: "string \<Rightarrow> cell" where
  "plain_cell s = \<lparr>cell_text = s, cell_cols = None, cell_cits = []\<rparr>"

definition wide_cell :: "string \<Rightarrow> string \<Rightarrow> cell" where
  "wide_cell n s = \<lparr>cell_text = s, cell_cols = Some n, cell_cits = []\<rparr>"

section \<open>The aspect classifier\<close>

text \<open>
  \<open>float(s)\<close> succeeds on: surrounding white space, an optional sign, and then \<open>inf\<close>,
  \<open>infinity\<close> or \<open>nan\<close> (here on lower-case text, as its caller passes), or a decimal
  number: digits with single underscores between them, an optional point, an optional
  exponent. Only whether it succeeds matters to the source.
\<close>

fun digits_tail :: "string \<Rightarrow> string" where
  "digits_tail [] = []"
| "digits_tail [c] = (if is_digit c then [] else [c])"
| "digits_tail (c # d # ds) =
     (if is_digit c then digits_tail (d # ds)
      else if c = CHR ''_'' \<and> is_digit d then digits_tail ds
      else c # d # ds)"

definition digitpart_rest :: "string \<Rightarrow> string option" where
  "digitpart_rest s = (case s of [] \<Rightarrow> None
                       | c # cs \<Rightarrow> if is_digit c then Some (digits_tail cs) else None)"

definition skip_sign :: "string \<Rightarrow> string" where
  "skip_sign s = (if startswith s ''+'' \<or> startswith s ''-'' then tl s else s)"

definition exponent_ok :: "string \<Rightarrow> bool" where
  "exponent_ok s = (case s of [] \<Rightarrow> True
                    | c # cs \<Rightarrow> c = CHR ''e'' \<and> digitpart_rest (skip_sign cs) = Some [])"

definition number_ok :: "string \<Rightarrow> bool" where
  "number_ok s =
     (case digitpart_rest s of
        Some rest \<Rightarrow>
          (if startswith rest ''.''
           then (case digitpart_rest (tl rest) of
                   Some rest' \<Rightarrow> exponent_ok rest'
                 | None \<Rightarrow> exponent_ok (tl rest))
           else exponent_ok rest)
      | None \<Rightarrow>
          (if startswith s ''.''
           then (case digitpart_rest (tl s) of Some rest' \<Rightarrow> exponent_ok rest' | None \<Rightarrow> False)
           else False))"

definition py_float_ok :: "string \<Rightarrow> bool" where
  "py_float_ok s =
     (let u = skip_sign (strip s)
      in u = ''inf'' \<or> u = ''infinity'' \<or> u = ''nan'' \<or> number_ok u)"

text \<open>
  The expressions of \<open>is_numeric\<close>, each tried at the start of the text (\<open>re.match\<close>):
  \<open>[<-]?\d+[km]\<close>, \<open>\d+[gm]hz\<close>, and the three optional groups of the time expression,
  \<open>\d+(?:hrs?|hours?)\<close>, \<open>\d+(?:ms?|mins?|minutes?)\<close> and \<open>\d+(?:s|sec|seconds?)\<close>. Each
  group is optional and is taken when it matches where the groups before it stopped, so
  \<open>any(groups())\<close> holds exactly when one of the three matches at the start of the text.
\<close>

definition after_digits :: "string \<Rightarrow> string option" where
  "after_digits s = (if s \<noteq> [] \<and> is_digit (hd s) then Some (dropWhile is_digit s) else None)"

definition units_regex :: "string \<Rightarrow> bool" where
  "units_regex s =
     (case after_digits (if startswith s ''<'' \<or> startswith s ''-'' then tl s else s) of
        Some rest \<Rightarrow> startswith rest ''k'' \<or> startswith rest ''m''
      | None \<Rightarrow> False)"

definition freq_regex :: "string \<Rightarrow> bool" where
  "freq_regex s =
     (case after_digits s of
        Some rest \<Rightarrow> startswith rest ''ghz'' \<or> startswith rest ''mhz''
      | None \<Rightarrow> False)"

definition time_group_hours :: "string \<Rightarrow> bool" where
  "time_group_hours s =
     (case after_digits s of
        Some rest \<Rightarrow> startswith rest ''hr'' \<or> startswith rest ''hour''
      | None \<Rightarrow> False)"

definition time_group_minutes :: "string \<Rightarrow> bool" where
  "time_group_minutes s =
     (case after_digits s of
        Some rest \<Rightarrow> startswith rest ''m'' \<or> startswith rest ''min'' \<or> startswith rest ''minute''
      | None \<Rightarrow> False)"

definition time_group_seconds :: "string \<Rightarrow> bool" where
  "time_group_seconds s =
     (case after_digits s of
        Some rest \<Rightarrow> startswith rest ''s'' \<or> startswith rest ''sec'' \<or> startswith rest ''second''
      | None \<Rightarrow> False)"

definition time_regex_any_group :: "string \<Rightarrow> bool" where
  "time_regex_any_group s =
     (time_group_hours s \<or> time_group_minutes s \<or> time_group_seconds s)"

text \<open>The character class \<open>[<$\<sim>~\s]\<close> of \<open>is_numeric\<close>, with U+223C as its three bytes.\<close>

definition tilde_operator :: string where
  "tilde_operator = [CHR 0xE2, CHR 0x88, CHR 0xBC]"

definition numeric_noise :: matcher where
  "numeric_noise s =
     (if startswith s tilde_operator then Some 3
      else case s of [] \<Rightarrow> None
           | c # cs \<Rightarrow> if c \<in> set ''<$~'' \<or> is_space c then Some 1 else None)"

definition is_numeric :: "string \<Rightarrow> bool" where
  "is_numeric v =
     (let value = replace ''below'' ''<'' v;
          value = re_sub numeric_noise [] (strip (lower value))
      in if units_regex value \<or> time_regex_any_group value \<or> freq_regex value then True
         else py_float_ok (replace ''-'' [] (replace '','' [] value)))"

definition binary_glyphs :: "string list" where
  "binary_glyphs = [[CHR 0xE2, CHR 0x9C, CHR 0x98], [CHR 0xE2, CHR 0x9C, CHR 0x97],
                    [CHR 0xC3, CHR 0x97], [CHR 0xE2, CHR 0x9C, CHR 0x94],
                    [CHR 0xE2, CHR 0x9C, CHR 0x93]]"

definition is_binary :: "string \<Rightarrow> bool" where
  "is_binary v = (let value = strip v
                  in lower value \<in> set [''yes'', ''no''] \<or> value \<in> set binary_glyphs)"

text \<open>\<open>is_na\<close> of the module of the aspect classifier; the class is \<open>[\<sim>~\s]\<close>.\<close>

definition na_noise :: matcher where
  "na_noise s =
     (if startswith s tilde_operator then Some 3
      else case s of [] \<Rightarrow> None
           | c # cs \<Rightarrow> if c = CHR ''~'' \<or> is_space c then Some 1 else None)"

definition en_dash :: string where
  "en_dash = [CHR 0xE2, CHR 0x80, CHR 0x93]"

definition is_na_aspect :: "string \<Rightarrow> bool" where
  "is_na_aspect v = (re_sub na_noise [] (lower v) \<in> set [''-'', en_dash, ''-'', ''n/a''])"

text \<open>The checks of \<open>get_aspect_type\<close>, in the order of the source. \<open>column[0]\<close> of an
  empty column raises \<open>IndexError\<close>.\<close>

definition mostly_long :: "string list \<Rightarrow> bool" where
  "mostly_long column =
     (let val_lens = map (\<lambda>val. 4 < length (split val)) (filter (\<lambda>val. \<not> is_na_aspect val) column)
      in length val_lens < 2 * length (filter id val_lens))"

definition get_aspect_type :: "string list \<Rightarrow> error + string" where
  "get_aspect_type column =
     (case column of
        [] \<Rightarrow> Inl IndexError
      | first # others \<Rightarrow>
          if contains ''{{cite:'' first then Inr ''cite''
          else if list_all (\<lambda>val. is_numeric val \<or> is_na_aspect val) column then Inr ''num''
          else if list_all (\<lambda>val. is_binary val \<or> is_na_aspect val) column then Inr ''bool''
          else if card (set column) = 1 then Inr ''cat-uniq''
          else if card (set column) \<noteq> length column then Inr ''cat''
          else if mostly_long column then Inr ''gen''
          else Inr ''ent'')"

section \<open>The reference extractor\<close>

text \<open>
  A data frame of the external table library, as the list of its columns: the label and the
  values of each, in order. Labels may repeat. The operations are the library's, as far as
  the source uses them: \<open>rename(columns={old: new})\<close> renames every column of that label;
  \<open>df[key] = values\<close> overwrites every column of that label, or appends a column when
  there is none; \<open>insert(0, key, values)\<close> raises \<open>ValueError\<close> when the label exists;
  \<open>df[labels]\<close> takes, for each label of the list in turn, every column of that label.
\<close>

type_synonym dataframe = "(string \<times> string list) list"

definition df_rename :: "string \<Rightarrow> string \<Rightarrow> dataframe \<Rightarrow> dataframe" where
  "df_rename old new df = map (\<lambda>(name, vals). (if name = old then new else name, vals)) df"

definition df_setitem :: "string \<Rightarrow> string list \<Rightarrow> dataframe \<Rightarrow> dataframe" where
  "df_setitem key new_vals df =
     (if key \<in> set (map fst df)
      then map (\<lambda>(name, vals). (name, if name = key then new_vals else vals)) df
      else df @ [(key, new_vals)])"

definition df_insert_first :: "string \<Rightarrow> string list \<Rightarrow> dataframe \<Rightarrow> error + dataframe" where
  "df_insert_first key new_vals df =
     (if key \<in> set (map fst df) then Inl ValueError else Inr ((key, new_vals) # df))"

definition df_select :: "string list \<Rightarrow> dataframe \<Rightarrow> dataframe" where
  "df_select labels df = concat (map (\<lambda>l. filter (\<lambda>(name, vals). name = l) df) labels)"

text \<open>\<open>str(n)\<close> of a natural number.\<close>

fun string_of_nat :: "nat \<Rightarrow> string" where
  "string_of_nat n =
     (if n < 10 then [''0123456789'' ! n]
      else string_of_nat (n div 10) @ [''0123456789'' ! (n mod 10)])"

text \<open>
  The first loop of \<open>split_references_column\<close>: the column with the strictly highest
  number of cells that contain a citation marker, the first column to begin with. A column
  read by position is a single column, so the branch that joins the columns of a repeated
  label is never taken.
\<close>

definition num_cites :: "string list \<Rightarrow> nat" where
  "num_cites vals = length (filter (\<lambda>cell_val. re_search cite_marker cell_val \<noteq> None) vals)"

fun pick_column :: "dataframe \<Rightarrow> int \<Rightarrow> string \<times> string list \<Rightarrow> string \<times> string list" where
  "pick_column [] max_num_cites column_with_cites = column_with_cites"
| "pick_column ((name, vals) # rest) max_num_cites column_with_cites =
     (if max_num_cites < int (num_cites vals)
      then pick_column rest (int (num_cites vals)) (name, vals)
      else pick_column rest max_num_cites column_with_cites)"

text \<open>
  The second loop: for each cell of the chosen column its reference (the whole marker, or a
  fresh \<open>no_cite-n\<close>) and what is left of it.
\<close>

fun split_cells :: "nat \<Rightarrow> string list \<Rightarrow> string list \<times> string list" where
  "split_cells no_cite_count [] = ([], [])"
| "split_cells no_cite_count (cell_val # rest) =
     (case re_search cite_marker cell_val of
        None \<Rightarrow>
          (let (references_col, new_column) = split_cells (Suc no_cite_count) rest
           in ((''no_cite-'' @ string_of_nat no_cite_count) # references_col, cell_val # new_column))
      | Some (t, n) \<Rightarrow>
          (let (references_col, new_column) = split_cells no_cite_count rest;
               new_cell_val = replace (take n t) [] cell_val
           in (take n t # references_col,
               strip (if new_cell_val = [] then ''-'' else new_cell_val) # new_column)))"

definition split_references_column :: "dataframe \<Rightarrow> error + (dataframe \<times> string)" where
  "split_references_column table_df =
     (case table_df of
        [] \<Rightarrow> Inl IndexError
      | first_column # others \<Rightarrow>
          (let (name, vals) = pick_column table_df (- 1) first_column;
               (references_col, new_column_without_cites) = split_cells 0 vals
           in if list_ex (\<lambda>val. val \<noteq> ''-'') new_column_without_cites
              then (if name = ''References''
                    then (case df_insert_first ''References'' references_col
                                 (df_setitem ''References_OLD'' new_column_without_cites
                                    (df_rename name ''References_OLD'' table_df)) of
                            Inl e \<Rightarrow> Inl e
                          | Inr df \<Rightarrow> Inr (df, ''References_OLD''))
                    else (case df_insert_first ''References'' references_col
                                 (df_setitem name new_column_without_cites table_df) of
                            Inl e \<Rightarrow> Inl e
                          | Inr df \<Rightarrow> Inr (df, name)))
              else (let df = df_rename name ''References'' table_df
                    in Inr (df_select
                              (''References'' # filter (\<lambda>col. col \<noteq> ''References'') (map fst df)) df,
                            name))))"

text \<open>
  The cell normalisation \<open>process_cell\<close>. The colour names \<open>COLORS\<close> at the start of a text,
  and \<open>COLORS_RE\<close>: a colour name followed by \<open>!\<close> and one or two digits, or standing
  before a cross or a check mark.
\<close>

definition nbsp :: string where "nbsp = [CHR 0xC2, CHR 0xA0]"
definition curly_apostrophe :: string where "curly_apostrophe = [CHR 0xE2, CHR 0x80, CHR 0x99]"
definition cross_mark :: string where "cross_mark = [CHR 0xE2, CHR 0x9C, CHR 0x97]"
definition check_mark :: string where "check_mark = [CHR 0xE2, CHR 0x9C, CHR 0x93]"
definition heavy_check_mark :: string where "heavy_check_mark = [CHR 0xE2, CHR 0x9C, CHR 0x94]"

definition first_prefix :: "string list \<Rightarrow> matcher" where
  "first_prefix ps s = map_option length (find (startswith s) ps)"

definition COLORS :: matcher where
  "COLORS = first_prefix [''aliceblue'', ''blue'', ''black'', ''midgray'', ''midgrey'', ''gray'',
                          ''grey'', ''red'', ''darkgreen'', ''green'', ''tablewhite'', ''tableblue'']"

definition COLORS_RE :: matcher where
  "COLORS_RE s =
     (case COLORS s of
        None \<Rightarrow> None
      | Some n \<Rightarrow>
          (let rest = drop n s
           in if startswith rest ''!'' \<and> length rest \<ge> 2 \<and> is_digit (rest ! 1)
              then (if length rest \<ge> 3 \<and> is_digit (rest ! 2) then Some (n + 3) else Some (n + 2))
              else if startswith rest cross_mark \<or> startswith rest check_mark then Some n
              else None))"

definition font_size :: "string \<Rightarrow> string" where
  "font_size s =
     (if 2 \<le> length (takeWhile is_digit s) \<and> startswith (dropWhile is_digit s) ''em''
      then drop 2 (dropWhile is_digit s) else s)"

definition process_cell :: "string \<Rightarrow> string" where
  "process_cell c =
     (let cell = replace nbsp '' '' c;
          cell = strip cell;
          cell = replace curly_apostrophe [CHR 0x27] cell;
          cell = (if cell = ''X'' then cross_mark else cell);
          cell = (if cell = ''tablered'' then ''no'' else cell);
          cell = replace heavy_check_mark check_mark cell;
          cell = (if cell = ''tablegreen'' then ''yes'' else cell);
          cell = re_sub COLORS_RE [] cell;
          cell = (case COLORS cell of Some n \<Rightarrow> drop n cell | None \<Rightarrow> cell);
          cell = re_sub (first_prefix [''[c]'', ''[l]'']) [] cell;
          cell = font_size cell;
          cell = re_sub (first_prefix [''N/A'', ''none'']) ''-'' cell;
          cell = strip cell
      in if cell = [] then ''-'' else cell)"

text \<open>
  \<open>postprocess_table_df\<close>. When a column label contains a citation tag the frame is
  transposed: the first column becomes the index, rows and columns are exchanged, and the
  index (the other labels) comes back as the first column under the label of the old first
  column. \<open>set_index\<close> on a repeated label raises \<open>ValueError\<close>; \<open>reset_index\<close> raises
  \<open>ValueError\<close> when the label is among the new column labels, and then the source
  restores the frame as it was.
\<close>

definition df_transpose_on_first :: "dataframe \<Rightarrow> error + dataframe" where
  "df_transpose_on_first table_df =
     (case table_df of
        [] \<Rightarrow> Inl IndexError
      | (original_col_0, index_vals) # others \<Rightarrow>
          if original_col_0 \<in> set (map fst others) then Inl ValueError
          else if original_col_0 \<in> set index_vals then Inr table_df
          else Inr ((original_col_0, map fst others) #
                    map (\<lambda>(i, label). (label, map (\<lambda>(name, vals). vals ! i) others))
                      (enumerate 0 index_vals)))"

definition postprocess_table_df :: "dataframe \<Rightarrow> error + (dataframe \<times> string)" where
  "postprocess_table_df table_df =
     (case (if 0 < count_str ''{{cite:'' (join '' '' (map fst table_df))
            then df_transpose_on_first table_df else Inr table_df) of
        Inl e \<Rightarrow> Inl e
      | Inr df \<Rightarrow>
          split_references_column
            (map (\<lambda>(name, vals). (process_cell name, map process_cell vals)) df))"

section \<open>The table reconstructor\<close>

text \<open>
  The result of \<open>soup_to_json\<close>: the grid, the incomplete rows (index and cell texts), the
  name of the column the citations were taken from, and the table by columns. A dictionary
  keeps its insertion order: \<open>table_dict\<close> is the list of its items.
\<close>

record table_json =
  table :: "string list list"
  incomplete_rows :: "(nat \<times> string list) list"
  old_citation_column :: "string option"
  table_dict :: table_dict

text \<open>\<open>is_na\<close> of the module of the reconstructor; U+2216 as its three bytes.\<close>

definition set_minus_sign :: string where
  "set_minus_sign = [CHR 0xE2, CHR 0x88, CHR 0x96]"

definition is_na :: "string \<Rightarrow> bool" where
  "is_na txt = (lower txt = ''n/a'' \<or> strip txt = [] \<or> txt = set_minus_sign)"

text \<open>
  \<open>re.search(r"(\d)\*(.+)", cell_text)\<close>, as its groups: the leftmost digit that is followed
  by a star and at least one character that is not a line feed, and the text after the
  star up to the end of the line.
\<close>

fun multirow_search :: "string \<Rightarrow> (nat \<times> string) option" where
  "multirow_search (c # s # d # rest) =
     (if is_digit c \<and> s = CHR ''*'' \<and> d \<noteq> CHR 0x0A
      then Some (digit_val c, takeWhile (\<lambda>x. x \<noteq> CHR 0x0A) (d # rest))
      else multirow_search (s # d # rest))"
| "multirow_search cs = None"

text \<open>The horizontal rule \<open>\(r\)\d-\d\<close>.\<close>

definition hrule :: matcher where
  "hrule s =
     (if startswith s ''(r)'' \<and> length s \<ge> 6 \<and> is_digit (s ! 3) \<and> s ! 4 = CHR ''-'' \<and>
         is_digit (s ! 5)
      then Some 6 else None)"

text \<open>
  A step of the loops of \<open>soup_to_json\<close> either goes on, or makes the function return (the
  empty-result sentinel), or raises.
\<close>

datatype ('a, 'r) outcome = Continue 'a | Return_sentinel 'r | Raise error

text \<open>
  \<open>table[row_i + row_offset][col] += text\<close> for the row offsets in turn; \<open>False\<close> with the
  table so far at the first \<open>IndexError\<close>.
\<close>

fun propagate ::
  "string list list \<Rightarrow> nat \<Rightarrow> int \<Rightarrow> string \<Rightarrow> nat list \<Rightarrow> bool \<times> string list list" where
  "propagate tbl row_i col txt [] = (True, tbl)"
| "propagate tbl row_i col txt (row_offset # offsets) =
     (if row_i + row_offset < length tbl
      then (case py_index (tbl ! (row_i + row_offset)) col of
              None \<Rightarrow> (False, tbl)
            | Some j \<Rightarrow>
                propagate
                  (tbl[row_i + row_offset :=
                     (tbl ! (row_i + row_offset))[j := tbl ! (row_i + row_offset) ! j @ txt]])
                  row_i col txt offsets)
      else (False, tbl))"

text \<open>
  The body of the loop over the column offsets of a cell: the row-span marker and its
  propagation first, then the text of the cell itself, written where the table is still
  empty.
\<close>

definition write_text ::
  "nat list \<Rightarrow> nat \<Rightarrow> int \<Rightarrow> string list list \<Rightarrow> string \<Rightarrow>
     (string list list, string list list) outcome" where
  "write_text header_rows row_i col tbl cell_text0 =
     (let without_rule = re_sub hrule [] cell_text0
      in case py_index (tbl ! row_i) col of
           None \<Rightarrow> Raise IndexError
         | Some j \<Rightarrow>
             (let final = (if is_na (strip without_rule) \<and> tbl ! row_i ! j = [] \<and>
                               row_i \<notin> set header_rows
                           then ''-'' else without_rule)
              in Continue (if tbl ! row_i ! j = []
                           then tbl[row_i := (tbl ! row_i)[j := strip final]]
                           else tbl)))"

definition fill_offset ::
  "nat list \<Rightarrow> nat \<Rightarrow> int \<Rightarrow> cell \<Rightarrow> string list list \<Rightarrow> nat \<Rightarrow>
     (string list list, string list list) outcome" where
  "fill_offset header_rows row_i col_i c tbl col_offset =
     (case multirow_search (cell_text c) of
        None \<Rightarrow> write_text header_rows row_i (col_i + int col_offset) tbl (cell_text c)
      | Some (count, rest) \<Rightarrow>
          (case propagate tbl row_i (col_i + int col_offset) (strip rest) [1..<count] of
             (ok, tbl') \<Rightarrow>
               if ok then write_text header_rows row_i (col_i + int col_offset) tbl' rest
               else Return_sentinel tbl'))"

fun fill_offsets ::
  "nat list \<Rightarrow> nat \<Rightarrow> int \<Rightarrow> cell \<Rightarrow> string list list \<Rightarrow> nat list \<Rightarrow>
     (string list list, string list list) outcome" where
  "fill_offsets header_rows row_i col_i c tbl [] = Continue tbl"
| "fill_offsets header_rows row_i col_i c tbl (col_offset # rest) =
     (case fill_offset header_rows row_i col_i c tbl col_offset of
        Continue tbl' \<Rightarrow> fill_offsets header_rows row_i col_i c tbl' rest
      | Return_sentinel tbl' \<Rightarrow> Return_sentinel tbl'
      | Raise e \<Rightarrow> Raise e)"

text \<open>The loop over the cells of a row; \<open>col_i\<close> advances by the span of each cell.\<close>

fun fill_cells ::
  "nat list \<Rightarrow> nat \<Rightarrow> int \<Rightarrow> cell list \<Rightarrow> string list list \<Rightarrow>
     (string list list, string list list) outcome" where
  "fill_cells header_rows row_i col_i [] tbl = Continue tbl"
| "fill_cells header_rows row_i col_i (c # cells) tbl =
     (case num_spanning_cols c of
        None \<Rightarrow> Raise ValueError
      | Some n \<Rightarrow>
          (case fill_offsets header_rows row_i col_i c tbl [0..<nat n] of
             Continue tbl' \<Rightarrow> fill_cells header_rows row_i (col_i + n) cells tbl'
           | Return_sentinel tbl' \<Rightarrow> Return_sentinel tbl'
           | Raise e \<Rightarrow> Raise e))"

text \<open>
  The empty-result sentinel: an empty \<open>table_dict\<close> (and no \<open>old_citation_column\<close>), with
  the table and the incomplete rows as they are when it is returned.
\<close>

definition sentinel :: "string list list \<Rightarrow> (nat \<times> string list) list \<Rightarrow> table_json" where
  "sentinel tbl incomplete =
     \<lparr>table = tbl, incomplete_rows = incomplete, old_citation_column = None, table_dict = []\<rparr>"

text \<open>The state of the loop over the rows, and its body for one row: the header rows
  after the two tests of the row, and the step itself.\<close>

record fill_state =
  fs_table :: "string list list"
  fs_incomplete_rows :: "(nat \<times> string list) list"
  fs_header_rows :: "nat list"
  fs_seen_cites :: bool

definition row_header_rows :: "int \<Rightarrow> fill_state \<Rightarrow> nat \<Rightarrow> cell list \<Rightarrow> nat list" where
  "row_header_rows n_cols st row_i cells =
     (let n_cites = length (filter (\<lambda>c. cell_cits c \<noteq> []) cells);
          seen_cites = (fs_seen_cites st \<or> 0 < n_cites);
          header_rows = (if n_cites = 0 \<and> row_i \<le> 1 \<and> \<not> seen_cites
                         then fs_header_rows st @ [row_i] else fs_header_rows st)
      in if int (length cells) < n_cols \<and> \<not> seen_cites then header_rows @ [row_i]
         else header_rows)"

definition fill_row ::
  "int \<Rightarrow> fill_state \<Rightarrow> nat \<Rightarrow> cell list \<Rightarrow> (fill_state, table_json) outcome" where
  "fill_row n_cols st row_i cells =
     (let n_cites = length (filter (\<lambda>c. cell_cits c \<noteq> []) cells);
          seen_cites = (fs_seen_cites st \<or> 0 < n_cites);
          header_rows = row_header_rows n_cols st row_i cells
      in if \<not> (int (length cells) < n_cols \<and> \<not> seen_cites) \<and>
            (int (length cells) < n_cols \<or>
             list_ex (\<lambda>c. contains ''{{figure:'' (cell_text c)) cells)
         then Continue (st\<lparr>fs_incomplete_rows := fs_incomplete_rows st @ [(row_i, map cell_text cells)],
                          fs_header_rows := header_rows, fs_seen_cites := seen_cites\<rparr>)
         else (case fill_cells header_rows row_i 0 cells (fs_table st) of
                 Continue tbl \<Rightarrow>
                   Continue (st\<lparr>fs_table := tbl, fs_header_rows := header_rows,
                                 fs_seen_cites := seen_cites\<rparr>)
               | Return_sentinel tbl \<Rightarrow> Return_sentinel (sentinel tbl (fs_incomplete_rows st))
               | Raise e \<Rightarrow> Raise e))"

fun fill_rows ::
  "int \<Rightarrow> fill_state \<Rightarrow> nat \<Rightarrow> cell list list \<Rightarrow> (fill_state, table_json) outcome" where
  "fill_rows n_cols st row_i [] = Continue st"
| "fill_rows n_cols st row_i (cells # rows) =
     (case fill_row n_cols st row_i cells of
        Continue st' \<Rightarrow> fill_rows n_cols st' (Suc row_i) rows
      | Return_sentinel r \<Rightarrow> Return_sentinel r
      | Raise e \<Rightarrow> Raise e)"

text \<open>\<open>merge_rows\<close>, and its repetition on the rows 0 and 1.\<close>

definition merge_vals :: "string \<Rightarrow> string \<Rightarrow> string" where
  "merge_vals val_i val_j =
     (if val_i = val_j \<or> strip val_j = [] then val_i
      else if strip val_i = [] then val_j
      else val_i @ ''-'' @ val_j)"

definition merge_rows :: "string list list \<Rightarrow> nat \<Rightarrow> nat \<Rightarrow> error + string list list" where
  "merge_rows tbl row_i row_j =
     (if row_i < length tbl \<and> row_j < length tbl
      then (let tbl' = tbl[row_i := map (\<lambda>(val_i, val_j). merge_vals val_i val_j)
                                      (zip (tbl ! row_i) (tbl ! row_j))]
            in Inr (take row_j tbl' @ drop (Suc row_j) tbl'))
      else Inl IndexError)"

fun merge_header :: "nat \<Rightarrow> string list list \<Rightarrow> error + string list list" where
  "merge_header 0 tbl = Inr tbl"
| "merge_header (Suc k) tbl =
     (case merge_rows tbl 0 1 of Inl e \<Rightarrow> Inl e | Inr tbl' \<Rightarrow> merge_header k tbl')"

text \<open>
  \<open>soup_to_json\<close> from the end of the loop over the rows on, and as a whole.
  \<open>pd.DataFrame(rows, columns=header)\<close> takes rows that have as many values as the header;
  \<open>to_dict(orient="list")\<close> keeps, of the columns of one label, the last one, at the place
  of the first.
\<close>

definition df_of_rows :: "string list \<Rightarrow> string list list \<Rightarrow> dataframe" where
  "df_of_rows header rows = map (\<lambda>(j, name). (name, map (\<lambda>r. r ! j) rows)) (enumerate 0 header)"

definition dict_set :: "table_dict \<Rightarrow> string \<times> string list \<Rightarrow> table_dict" where
  "dict_set d kv =
     (if fst kv \<in> set (map fst d)
      then map (\<lambda>(k, v). (k, if k = fst kv then snd kv else v)) d
      else d @ [kv])"

definition df_to_dict :: "dataframe \<Rightarrow> table_dict" where
  "df_to_dict df = foldl dict_set [] df"

definition initial_fill_state :: "nat \<Rightarrow> nat \<Rightarrow> fill_state" where
  "initial_fill_state n_rows n_cols =
     \<lparr>fs_table = replicate n_rows (replicate n_cols []), fs_incomplete_rows = [],
      fs_header_rows = [], fs_seen_cites = False\<rparr>"

definition finish_table :: "fill_state \<Rightarrow> error + table_json" where
  "finish_table st =
     (case (if fs_header_rows st = [] then Inr (fs_table st)
            else merge_header (Max (set (fs_header_rows st))) (fs_table st)) of
        Inl e \<Rightarrow> Inl e
      | Inr merged \<Rightarrow>
          (let tbl = filter (\<lambda>r. list_ex (\<lambda>v. v \<noteq> []) r) merged
           in if \<not> list_ex (\<lambda>r. concat r \<noteq> []) tbl
              then Inr \<lparr>table = tbl, incomplete_rows = fs_incomplete_rows st,
                         old_citation_column = None, table_dict = []\<rparr>
              else (case postprocess_table_df (df_of_rows (hd tbl) (tl tbl)) of
                      Inl e \<Rightarrow> Inl e
                    | Inr (table_df, old_col_with_cites_name) \<Rightarrow>
                        Inr \<lparr>table = tbl, incomplete_rows = fs_incomplete_rows st,
                             old_citation_column = Some old_col_with_cites_name,
                             table_dict = df_to_dict table_df\<rparr>)))"

definition soup_to_json :: "soup \<Rightarrow> error + table_json" where
  "soup_to_json table_soup =
     (case num_cols table_soup of
        Inl e \<Rightarrow> Inl e
      | Inr n_cols \<Rightarrow>
          (case fill_rows n_cols (initial_fill_state (length table_soup) (nat n_cols)) 0 table_soup of
             Raise e \<Rightarrow> Inl e
           | Return_sentinel r \<Rightarrow> Inr r
           | Continue st \<Rightarrow> finish_table st))"

section \<open>The dataset assembler\<close>

text \<open>
  A record of the assembled dataset, with the fields that the assembler writes and the
  filter pipeline reads. The keys \<open>caption\<close> and \<open>in_text_ref\<close> may be absent (\<open>None\<close>).
\<close>

record sample =
  paper_id :: string
  table_hash :: string
  caption :: "string option"
  in_text_ref :: "string list option"
  table_json :: table_json
  row_bib_map :: "bib_row list"
  bib_hash :: "string option list"

text \<open>
  A labelled table as \<open>create_dataset\<close> reads it. The markup (\<open>table_html\<close> or \<open>xml\<close>) is
  given as the tree \<open>soupify\<close> makes of it. \<open>labels\<close> and \<open>input_papers\<close> may be absent.
  The filters are given by the names of the predicates.
\<close>

record paper_info =
  info_corpus_id :: int
  info_title :: "string option"
  info_abstract :: "string option"

record labeled_table =
  lt_paper_id :: string
  lt_table_hash :: string
  lt_caption :: "string option"
  lt_in_text_ref :: "string list option"
  lt_labels :: "(string \<times> bool) list option"
  lt_soup :: soup
  lt_input_papers :: "(string \<times> paper_info) list option"

text \<open>What the function builds: the dataset it returns and the two lists it prints.\<close>

record assembled =
  dataset :: "sample list"
  skipped_table_hashes :: "string list"
  missing_bib_hashes :: "string list"

text \<open>The loop over the filters: whether the table is to be skipped; a label that is not
  there raises \<open>KeyError\<close>.\<close>

fun should_skip_table :: "(string \<rightharpoonup> bool) \<Rightarrow> string list \<Rightarrow> error + bool" where
  "should_skip_table labels [] = Inr False"
| "should_skip_table labels (filter_fn # filters) =
     (case labels filter_fn of
        None \<Rightarrow> Inl KeyError
      | Some passed \<Rightarrow> if \<not> passed then Inr True else should_skip_table labels filters)"

definition cite_shas_of :: "soup \<Rightarrow> string option list" where
  "cite_shas_of table_soup = concat (map cell_cits (concat table_soup))"

text \<open>The loop that fills in the metadata of the entries whose key is in \<open>input_papers\<close>.\<close>

fun merge_input_papers ::
  "(string \<rightharpoonup> paper_info) \<Rightarrow> bib_row list \<Rightarrow> bib_row list \<times> string list" where
  "merge_input_papers input_papers [] = ([], [])"
| "merge_input_papers input_papers (r # rs) =
     (let (rs', missing) = merge_input_papers input_papers rs
      in case input_papers (bib_hash_or_arxiv_id r) of
           None \<Rightarrow> (r # rs', bib_hash_or_arxiv_id r # missing)
         | Some paper_info \<Rightarrow>
             (r\<lparr>corpus_id := info_corpus_id paper_info, title := Some (info_title paper_info),
                abstract := Some (info_abstract paper_info)\<rparr> # rs', missing))"

text \<open>
  The body of the loop of \<open>create_dataset\<close> for one table. The \<open>try\<close> statement encloses
  the call of \<open>soup_to_json\<close> only: whatever it raises is replaced by an empty
  \<open>table_dict\<close>. The call of \<open>get_table_row_bib_map\<close> stands outside it.
\<close>

definition create_sample :: "labeled_table \<Rightarrow> assembled \<Rightarrow> error + assembled" where
  "create_sample t acc =
     (let table_json = (case soup_to_json (lt_soup t) of
                          Inl e \<Rightarrow> sentinel [] []
                        | Inr r \<Rightarrow> r)
      in if table_dict table_json = []
         then Inr (acc\<lparr>skipped_table_hashes := skipped_table_hashes acc @ [lt_table_hash t]\<rparr>)
         else (case get_table_row_bib_map (table_dict table_json) (cite_shas_of (lt_soup t))
                      (lt_paper_id t) of
                 Inl e \<Rightarrow> Inl e
               | Inr bib_map \<Rightarrow>
                   (let (bib_map', missing) =
                          (case lt_input_papers t of
                             None \<Rightarrow> (bib_map, [])
                           | Some input_papers \<Rightarrow> merge_input_papers (map_of input_papers) bib_map)
                    in Inr (acc\<lparr>dataset := dataset acc @
                                    [\<lparr>paper_id = lt_paper_id t, table_hash = lt_table_hash t,
                                      caption = lt_caption t, in_text_ref = lt_in_text_ref t,
                                      table_json = table_json, row_bib_map = bib_map',
                                      bib_hash = cite_shas_of (lt_soup t)\<rparr>],
                                  missing_bib_hashes := missing_bib_hashes acc @ missing\<rparr>))))"

definition create_table :: "string list \<Rightarrow> labeled_table \<Rightarrow> assembled \<Rightarrow> error + assembled" where
  "create_table filters t acc =
     (case (case lt_labels t of
              None \<Rightarrow> Inr False
            | Some labels \<Rightarrow> should_skip_table (map_of labels) filters) of
        Inl e \<Rightarrow> Inl e
      | Inr skip \<Rightarrow> if skip then Inr acc else create_sample t acc)"

fun create_loop :: "string list \<Rightarrow> labeled_table list \<Rightarrow> assembled \<Rightarrow> error + assembled" where
  "create_loop filters [] acc = Inr acc"
| "create_loop filters (t # ts) acc =
     (case create_table filters t acc of
        Inl e \<Rightarrow> Inl e
      | Inr acc' \<Rightarrow> create_loop filters ts acc')"

definition create_dataset :: "labeled_table list \<Rightarrow> string list \<Rightarrow> error + assembled" where
  "create_dataset labeled_tables filters =
     create_loop filters labeled_tables
       \<lparr>dataset = [], skipped_table_hashes = [], missing_bib_hashes = []\<rparr>"

text \<open>
  Two tables of a document: the citation element of the first one has no \<open>sha\<close>
  attribute, so its marker is not among the known keys; the second one is in order. And a
  table whose row-span marker reaches beyond the last row.
\<close>

definition cited_cell :: "string \<Rightarrow> string option \<Rightarrow> cell" where
  "cited_cell s sha = \<lparr>cell_text = s, cell_cols = None, cell_cits = [sha]\<rparr>"

definition unmapped_table :: labeled_table where
  "unmapped_table =
     \<lparr>lt_paper_id = ''2308.00001'', lt_table_hash = ''hash-unmapped'', lt_caption = None,
      lt_in_text_ref = None, lt_labels = None,
      lt_soup = [[plain_cell ''Model'', plain_cell ''Task''],
                 [cited_cell ''BERT {{cite:abc1234}}'' None, plain_cell ''QA''],
                 [cited_cell ''GPT {{cite:0123456}}'' (Some ''0123456ffff''), plain_cell ''LM'']],
      lt_input_papers = None\<rparr>"

definition mapped_table :: labeled_table where
  "mapped_table =
     \<lparr>lt_paper_id = ''2308.00001'', lt_table_hash = ''hash-mapped'', lt_caption = None,
      lt_in_text_ref = None, lt_labels = None,
      lt_soup = [[plain_cell ''Model'', plain_cell ''Task''],
                 [cited_cell ''BERT {{cite:abc1234}}'' (Some ''abc1234ffff''), plain_cell ''QA''],
                 [cited_cell ''GPT {{cite:0123456}}'' (Some ''0123456ffff''), plain_cell ''LM'']],
      lt_input_papers = None\<rparr>"

definition overlong_span_table :: labeled_table where
  "overlong_span_table =
     \<lparr>lt_paper_id = ''2308.00001'', lt_table_hash = ''hash-span'', lt_caption = None,
      lt_in_text_ref = None, lt_labels = None,
      lt_soup = [[plain_cell ''Model'', plain_cell ''Task''],
                 [cited_cell ''{{cite:abc1234}}'' (Some ''abc1234ffff''), plain_cell ''3*LM'']],
      lt_input_papers = None\<rparr>"

section \<open>The quality filter pipeline\<close>

definition DEFAULT_POST_JSON_FILTERS :: "string list" where
  "DEFAULT_POST_JSON_FILTERS = [''no_formula'', ''has_caption'', ''no_no_cite'', ''no_dup'']"

definition table_str_of :: "table_dict \<Rightarrow> string" where
  "table_str_of d = join [CHR 0x0A] (map (\<lambda>(colname, vals). join [CHR 0x09] (colname # vals)) d)"

text \<open>
  \<open>"has_caption" in filters and table["caption"] == "NO_CAPTION" or not table["caption"].strip()\<close>:
  \<open>and\<close> binds tighter than \<open>or\<close>, and whichever operand is evaluated first reads
  \<open>table["caption"]\<close>.
\<close>

definition caption_reject :: "string list \<Rightarrow> string option \<Rightarrow> error + bool" where
  "caption_reject filters cap =
     (case cap of
        None \<Rightarrow> Inl KeyError
      | Some c \<Rightarrow> Inr ((''has_caption'' \<in> set filters \<and> c = ''NO_CAPTION'') \<or> strip c = []))"

text \<open>The row-level flags, in order; reading a key that the entry lacks raises \<open>KeyError\<close>.\<close>

definition should_remove_row :: "string list \<Rightarrow> int list \<Rightarrow> bib_row \<Rightarrow> error + bool" where
  "should_remove_row filters valid_corpus_ids r =
     (if ''rows_no_missing_titles'' \<in> set filters \<and> title r = None then Inl KeyError
      else if ''rows_no_missing_abstracts'' \<in> set filters \<and> abstract r = None then Inl KeyError
      else Inr ((''rows_no_missing_titles'' \<in> set filters \<and> title r = Some None) \<or>
                (''rows_no_missing_abstracts'' \<in> set filters \<and> abstract r = Some None) \<or>
                (''rows_no_missing_full_texts'' \<in> set filters \<and>
                   corpus_id r \<notin> set valid_corpus_ids)))"

text \<open>
  The loop over \<open>row_bib_map\<close>: the row numbers to remove, the hashes of the removed
  entries (a set in the source: only the number of distinct ones is read) and the
  renumbered entries that stay.
\<close>

fun prune_rows ::
  "string list \<Rightarrow> int list \<Rightarrow> bib_row list \<Rightarrow> nat list \<Rightarrow> string list \<Rightarrow> bib_row list \<Rightarrow>
     error + (nat list \<times> string list \<times> bib_row list)" where
  "prune_rows filters ids [] remove_rows remove_unique_hashes new_row_bib_map =
     Inr (remove_rows, remove_unique_hashes, new_row_bib_map)"
| "prune_rows filters ids (r # rs) remove_rows remove_unique_hashes new_row_bib_map =
     (case should_remove_row filters ids r of
        Inl e \<Rightarrow> Inl e
      | Inr should_remove \<Rightarrow>
          if should_remove
          then prune_rows filters ids rs (remove_rows @ [row r])
                 (remove_unique_hashes @ [bib_hash_or_arxiv_id r]) new_row_bib_map
          else prune_rows filters ids rs remove_rows remove_unique_hashes
                 (new_row_bib_map @ [r\<lparr>row := length new_row_bib_map\<rparr>]))"

text \<open>The column rules. \<open>(and|[,])\<close>, \<open>\d+$\<close> (the end, or a final line feed) and \<open>\.\d\<close>.\<close>

definition and_or_comma :: matcher where
  "and_or_comma s = (if startswith s ''and'' then Some 3
                     else if startswith s '','' then Some 1 else None)"

definition only_citations :: "string list \<Rightarrow> bool" where
  "only_citations vals =
     list_all (\<lambda>cell. strip cell = ''-'' \<or>
                       startswith (strip (re_sub and_or_comma [] cell)) ''{{cite:'') vals"

definition numeric_header :: "string \<Rightarrow> bool" where
  "numeric_header col =
     (case after_digits col of Some rest \<Rightarrow> rest = [] \<or> rest = [CHR 0x0A] | None \<Rightarrow> False)"

definition float_token :: matcher where
  "float_token s = (case s of c # d # rest \<Rightarrow> if c = CHR ''.'' \<and> is_digit d then Some 2 else None
                    | _ \<Rightarrow> None)"

definition FLOAT_REGEX_search :: "string \<Rightarrow> bool" where
  "FLOAT_REGEX_search s = (re_search float_token s \<noteq> None)"

definition name_headers :: "string list" where
  "name_headers = [''reference'', ''author'', ''reference-(5)'', ''author/reference'']"

definition generic_headers :: "string list" where
  "generic_headers =
     [''Venue'', ''Month'', ''Year'', ''No.'', ''[HTML]D0CECE'' @ [CHR 0x0A] @ ''Year'', ''Title'',
      ''URL'', ''[HTML]BBDAFFYear'', ''Link'', ''Version'', ''Organiser'', ''Citations'', ''Pub.'',
      ''Title of Survey Article'', ''License'', ''Publication'']"

text \<open>
  One pass of the loop over the columns: the names it appends to \<open>remove_cols\<close>. The
  first two rules are under no flag. In the rule of the generic headers the second operand
  of \<open>or\<close> compares the method \<open>col.lower\<close> itself with strings and is always false. The
  rule of the old citation column appends that column's name (which may be null) at every
  pass. \<open>get_aspect_type\<close> is called, and may raise, only under one of its two flags.
\<close>

definition column_rules ::
  "string list \<Rightarrow> string option \<Rightarrow> string \<Rightarrow> string list \<Rightarrow> error + string option list" where
  "column_rules filters old_col col vals =
     (let plain =
            (if only_citations vals then [Some col] else []) @
            (if numeric_header col then [Some col] else []) @
            (if ''cols_no_formula'' \<in> set filters \<and> list_ex (contains ''{{formula:'') (vals @ [col])
             then [Some col] else []) @
            (if ''cols_no_formula_colname'' \<in> set filters \<and> contains ''{{formula:'' col
             then [Some col] else []) @
            (if ''cols_no_names'' \<in> set filters \<and> lower col \<in> set name_headers
             then [Some col] else []) @
            (if (''col_no_generic'' \<in> set filters \<and> col \<in> set generic_headers) \<or> False
             then [Some col] else []) @
            (if ''cols_no_old_citation_col'' \<in> set filters then [old_col] else []) @
            (if ''cols_no_float'' \<in> set filters \<and> list_ex FLOAT_REGEX_search (vals @ [col])
             then [Some col] else []) @
            (if ''cols_no_figure'' \<in> set filters \<and> list_ex (contains ''{{figure'') (vals @ [col])
             then [Some col] else [])
      in if ''cols_no_ent_or_gen'' \<in> set filters \<or> ''cols_no_numeric'' \<in> set filters
         then (case get_aspect_type vals of
                 Inl e \<Rightarrow> Inl e
               | Inr aspect_type \<Rightarrow>
                   Inr (plain @
                        (if ''cols_no_numeric'' \<in> set filters \<and> aspect_type = ''num''
                         then [Some col] else []) @
                        (if ''cols_no_ent_or_gen'' \<in> set filters \<and> aspect_type \<in> set [''gen'', ''ent'']
                         then [Some col] else [])))
         else Inr plain)"

fun collect_remove_cols ::
  "string list \<Rightarrow> string option \<Rightarrow> table_dict \<Rightarrow> string option list \<Rightarrow> error + string option list" where
  "collect_remove_cols filters old_col [] remove_cols = Inr remove_cols"
| "collect_remove_cols filters old_col ((col, vals) # rest) remove_cols =
     (case column_rules filters old_col col vals of
        Inl e \<Rightarrow> Inl e
      | Inr names \<Rightarrow> collect_remove_cols filters old_col rest (remove_cols @ names))"

text \<open>\<open>[val for row_i, val in enumerate(vals) if row_i not in remove_rows]\<close>\<close>

definition drop_rows :: "nat list \<Rightarrow> string list \<Rightarrow> string list" where
  "drop_rows remove_rows vals =
     map snd (filter (\<lambda>(row_i, val). row_i \<notin> set remove_rows) (enumerate 0 vals))"

definition new_table_dict_of :: "string option list \<Rightarrow> nat list \<Rightarrow> table_dict \<Rightarrow> table_dict" where
  "new_table_dict_of remove_cols remove_rows d =
     map (\<lambda>(col, vals). (col, drop_rows remove_rows vals))
       (filter (\<lambda>(col, vals). \<not> (Some col \<in> set remove_cols \<and> col \<noteq> ''References'')) d)"

definition min_cols :: "string list \<Rightarrow> nat" where
  "min_cols filters =
     (if ''cols_no_ent_or_gen'' \<in> set filters \<or> ''cols_no_numeric'' \<in> set filters then 2 else 3)"

text \<open>The signature of \<open>no_dup\<close>; \<open>{{cite:.{7}}}\<close> takes any 7 characters but line feeds.\<close>

definition any_cite :: matcher where
  "any_cite s =
     (if startswith s ''{{cite:'' \<and> length (take 7 (drop 7 s)) = 7 \<and>
         CHR 0x0A \<notin> set (take 7 (drop 7 s)) \<and> startswith (drop 14 s) ''}}''
      then Some 16 else None)"

definition table_str_no_refs :: "table_dict \<Rightarrow> string" where
  "table_str_no_refs d =
     join [CHR 0x0A]
       (map (\<lambda>(colname, vals). re_sub any_cite ''[cite]'' (join [CHR 0x09] (colname # vals)))
          (filter (\<lambda>(colname, vals). colname \<noteq> ''References'') d))"

text \<open>
  The body of the loop of \<open>get_high_quality_tables\<close> for one table: the error raised, or
  the record to append (\<open>None\<close> when the table is dropped) with the signatures seen so far.
  Only the \<open>KeyError\<close> of the \<open>no_missing_titles\<close> test is caught (the table is dropped).
\<close>

definition keep_table ::
  "string list \<Rightarrow> string list \<Rightarrow> sample \<Rightarrow> nat list \<Rightarrow> bib_row list \<Rightarrow> string option list \<Rightarrow>
     error + (sample option \<times> string list)" where
  "keep_table filters seen_table_strs t remove_rows new_row_bib_map remove_cols =
     (let new_table_dict = new_table_dict_of remove_cols remove_rows (table_dict (table_json t));
          table_cp = t\<lparr>table_json := (table_json t)\<lparr>table_dict := new_table_dict\<rparr>,
                       row_bib_map := new_row_bib_map\<rparr>
      in if length new_table_dict < min_cols filters then Inr (None, seen_table_strs)
         else if ''no_dup'' \<in> set filters
         then (if table_str_no_refs new_table_dict \<in> set seen_table_strs
               then Inr (None, seen_table_strs)
               else Inr (Some table_cp, seen_table_strs @ [table_str_no_refs new_table_dict]))
         else Inr (Some table_cp, seen_table_strs))"

definition prune_table ::
  "string list \<Rightarrow> int list \<Rightarrow> string list \<Rightarrow> sample \<Rightarrow> string list \<Rightarrow>
     error + (sample option \<times> string list)" where
  "prune_table filters valid_corpus_ids seen_table_strs t references =
     (case prune_rows filters valid_corpus_ids (row_bib_map t) [] [] [] of
        Inl e \<Rightarrow> Inl e
      | Inr (remove_rows, remove_unique_hashes, new_row_bib_map) \<Rightarrow>
          if ''more_than_two_rows'' \<in> set filters \<and>
             int (length references) - int (length remove_rows) < 2
          then Inr (None, seen_table_strs)
          else if ''more_than_two_uniq_rows'' \<in> set filters \<and>
             int (length (remdups references)) - int (length (remdups remove_unique_hashes)) < 2
          then Inr (None, seen_table_strs)
          else (case collect_remove_cols filters (old_citation_column (table_json t))
                       (table_dict (table_json t)) [] of
                  Inl e \<Rightarrow> Inl e
                | Inr remove_cols \<Rightarrow>
                    keep_table filters seen_table_strs t remove_rows new_row_bib_map remove_cols))"

definition process_table ::
  "string list \<Rightarrow> int list \<Rightarrow> string list \<Rightarrow> sample \<Rightarrow> error + (sample option \<times> string list)" where
  "process_table filters valid_corpus_ids seen_table_strs t =
     (let d = table_dict (table_json t);
          table_str = table_str_of d;
          skip = Inr (None, seen_table_strs)
      in if ''no_formula'' \<in> set filters \<and> contains ''{{formula:'' table_str then skip
         else case caption_reject filters (caption t) of
           Inl e \<Rightarrow> Inl e
         | Inr reject \<Rightarrow>
           if reject then skip
           else if ''has_in_text_ref'' \<in> set filters \<and> in_text_ref t = None then Inl KeyError
           else if ''has_in_text_ref'' \<in> set filters \<and> in_text_ref t = Some [] then skip
           else if ''no_no_cite'' \<in> set filters \<and> contains ''no_cite'' table_str then skip
           else if ''max_one_no_cite'' \<in> set filters \<and> 1 < count_str ''no_cite'' table_str then skip
           else if ''no_merged_headers'' \<in> set filters \<and> list_ex (contains ''-'') (map fst d) then skip
           else (case map_of d ''References'' of
             None \<Rightarrow> Inl KeyError
           | Some references \<Rightarrow>
             if list_all (\<lambda>cell. strip cell = ''-'') references then skip
             else if ''no_missing_titles'' \<in> set filters \<and>
                     list_ex (\<lambda>r. title r = None) (row_bib_map t) then skip
             else if ''no_missing_titles'' \<in> set filters \<and>
                     list_ex (\<lambda>r. title r = Some None) (row_bib_map t) then skip
             else if ''no_missing_abstracts'' \<in> set filters \<and>
                     list_ex (\<lambda>r. abstract r = None) (row_bib_map t) then Inl KeyError
             else if ''no_missing_abstracts'' \<in> set filters \<and>
                     list_ex (\<lambda>r. abstract r = Some None) (row_bib_map t) then skip
             else prune_table filters valid_corpus_ids seen_table_strs t references))"

fun high_quality_loop ::
  "string list \<Rightarrow> int list \<Rightarrow> sample list \<Rightarrow> string list \<Rightarrow> sample list \<Rightarrow> error + sample list" where
  "high_quality_loop filters ids [] seen_table_strs high_quality_tables = Inr high_quality_tables"
| "high_quality_loop filters ids (t # ts) seen_table_strs high_quality_tables =
     (case process_table filters ids seen_table_strs t of
        Inl e \<Rightarrow> Inl e
      | Inr (None, seen') \<Rightarrow> high_quality_loop filters ids ts seen' high_quality_tables
      | Inr (Some table_cp, seen') \<Rightarrow>
          high_quality_loop filters ids ts seen' (high_quality_tables @ [table_cp]))"

text \<open>
  \<open>get_high_quality_tables\<close>. The identifiers of the papers with full text are read from
  files, and only under the flag \<open>rows_no_missing_full_texts\<close>: they are a parameter here.
\<close>

definition effective_filters :: "string list option \<Rightarrow> string list" where
  "effective_filters filters_arg =
     (case filters_arg of None \<Rightarrow> DEFAULT_POST_JSON_FILTERS | Some fs \<Rightarrow> fs)"

definition get_high_quality_tables ::
  "int list \<Rightarrow> sample list \<Rightarrow> string list option \<Rightarrow> error + sample list" where
  "get_high_quality_tables full_text_corpus_ids valid_tables_with_jsons filters_arg =
     (let filters = effective_filters filters_arg;
          valid_corpus_ids =
            (if ''rows_no_missing_full_texts'' \<in> set filters then full_text_corpus_ids else [])
      in high_quality_loop filters valid_corpus_ids valid_tables_with_jsons [] [])"

text \<open>
  The rules of column removal, as one predicate of a column: the first two hold under no
  flag, each of the others only under its flag.
\<close>

definition column_rule_matches :: "string list \<Rightarrow> string option \<Rightarrow> string \<Rightarrow> string list \<Rightarrow> bool" where
  "column_rule_matches filters old_col col vals =
     (only_citations vals \<or> numeric_header col \<or>
      (''cols_no_formula'' \<in> set filters \<and> list_ex (contains ''{{formula:'') (vals @ [col])) \<or>
      (''cols_no_formula_colname'' \<in> set filters \<and> contains ''{{formula:'' col) \<or>
      (''cols_no_names'' \<in> set filters \<and> lower col \<in> set name_headers) \<or>
      (''col_no_generic'' \<in> set filters \<and> col \<in> set generic_headers) \<or>
      (''cols_no_old_citation_col'' \<in> set filters \<and> old_col = Some col) \<or>
      (''cols_no_float'' \<in> set filters \<and> list_ex FLOAT_REGEX_search (vals @ [col])) \<or>
      (''cols_no_figure'' \<in> set filters \<and> list_ex (contains ''{{figure'') (vals @ [col])) \<or>
      (''cols_no_numeric'' \<in> set filters \<and> get_aspect_type vals = Inr ''num'') \<or>
      (''cols_no_ent_or_gen'' \<in> set filters \<and>
         (get_aspect_type vals = Inr ''gen'' \<or> get_aspect_type vals = Inr ''ent'')))"

text \<open>A table of three cited rows, the second without a title, and a column of dashes.\<close>

definition example_rows :: "bib_row list" where
  "example_rows =
     [(ref_entry ''abc1234ffff'' 0)\<lparr>title := Some (Some ''First''), abstract := Some (Some ''A'')\<rparr>,
      (ref_entry ''0123456eeee'' 1)\<lparr>title := Some None, abstract := Some (Some ''B'')\<rparr>,
      (ref_entry ''fedcba98888'' 2)\<lparr>title := Some (Some ''Third''), abstract := Some (Some ''C'')\<rparr>]"

definition example_table :: sample where
  "example_table =
     \<lparr>paper_id = ''2308.00001'', table_hash = ''h1'', caption = Some ''Table 1: models'',
      in_text_ref = None,
      table_json =
        \<lparr>table = [], incomplete_rows = [], old_citation_column = Some ''Model'',
         table_dict =
           [(''References'', [''{{cite:abc1234}}'', ''{{cite:0123456}}'', ''{{cite:fedcba9}}'']),
            (''Extra'', [''-'', ''-'', ''-'']),
            (''Task'', [''QA'', ''NLI'', ''MT'']),
            (''Data'', [''web'', ''books'', ''news''])]\<rparr>,
      row_bib_map = example_rows, bib_hash = []\<rparr>"

definition example_table_pruned :: sample where
  "example_table_pruned =
     example_table
       \<lparr>table_json := (table_json example_table)
          \<lparr>table_dict :=
             [(''References'', [''{{cite:abc1234}}'', ''{{cite:fedcba9}}'']),
              (''Task'', [''QA'', ''MT'']),
              (''Data'', [''web'', ''news''])]\<rparr>,
        row_bib_map :=
          [(ref_entry ''abc1234ffff'' 0)\<lparr>title := Some (Some ''First''), abstract := Some (Some ''A'')\<rparr>,
           (ref_entry ''fedcba98888'' 1)\<lparr>title := Some (Some ''Third''), abstract := Some (Some ''C'')\<rparr>]\<rparr>"

text \<open>
  The classification of a row, in the words of the design: from the row, its index, the
  column count and whether a citation was seen in an earlier row. A row is a header row
  when it has no citation cell, its index is at most 1 and no citation was seen before, or
  when it has fewer cells than columns and no citation was seen up to and including it. It
  is an incomplete row when it has fewer cells than columns and a citation was seen up to
  and including it, or when it has as many cells as columns or more and a cell with a
  figure placeholder.
\<close>

definition has_cite_cell :: "cell list \<Rightarrow> bool" where
  "has_cite_cell cells = list_ex (\<lambda>c. cell_cits c \<noteq> []) cells"

definition has_figure_cell :: "cell list \<Rightarrow> bool" where
  "has_figure_cell cells = list_ex (\<lambda>c. contains ''{{figure:'' (cell_text c)) cells"

definition header_rule :: "int \<Rightarrow> bool \<Rightarrow> nat \<Rightarrow> cell list \<Rightarrow> bool" where
  "header_rule n_cols seen_before row_i cells =
     ((\<not> has_cite_cell cells \<and> row_i \<le> 1 \<and> \<not> seen_before) \<or>
      (int (length cells) < n_cols \<and> \<not> (seen_before \<or> has_cite_cell cells)))"

definition incomplete_rule :: "int \<Rightarrow> bool \<Rightarrow> cell list \<Rightarrow> bool" where
  "incomplete_rule n_cols seen_before cells =
     ((int (length cells) < n_cols \<and> (seen_before \<or> has_cite_cell cells)) \<or>
      (\<not> int (length cells) < n_cols \<and> has_figure_cell cells))"

definition is_header_row :: "int \<Rightarrow> soup \<Rightarrow> nat \<Rightarrow> bool" where
  "is_header_row n_cols table_soup i =
     header_rule n_cols (list_ex has_cite_cell (take i table_soup)) i (table_soup ! i)"

definition is_incomplete_row :: "int \<Rightarrow> soup \<Rightarrow> nat \<Rightarrow> bool" where
  "is_incomplete_row n_cols table_soup i =
     incomplete_rule n_cols (list_ex has_cite_cell (take i table_soup)) (table_soup ! i)"

text \<open>A short first row with a figure placeholder, before a header and a cited row.\<close>

definition figure_header_soup :: soup where
  "figure_header_soup =
     [[plain_cell ''{{figure:1}}''],
      [plain_cell ''Model'', plain_cell ''Task''],
      [cited_cell ''{{cite:abc1234}}'' (Some ''abc1234ffff''), plain_cell ''QA'']]"

text \<open>A table with a spanning title, two header rows, a short row before and after the
  first citation, and a row with a figure placeholder.\<close>

definition mixed_rows_soup :: soup where
  "mixed_rows_soup =
     [[wide_cell ''2'' ''Models''],
      [plain_cell ''Name'', plain_cell ''Task''],
      [plain_cell ''x''],
      [cited_cell ''{{cite:abc1234}}'' (Some ''abc1234ffff''), plain_cell ''{{figure:1}}''],
      [cited_cell ''{{cite:0123456}}'' (Some ''0123456ffff''), plain_cell ''LM''],
      [plain_cell ''short'']]"

section \<open>Properties\<close>

lemma foldl_max_ge: "(a::int) \<le> foldl max a xs"
  by (induction xs arbitrary: a) (auto intro: order_trans [OF max.cobounded1])

lemma foldl_max_const: "\<forall>x\<in>set xs. x = (a::int) \<Longrightarrow> foldl max a xs = a"
  by (induction xs) auto

lemma those_list_map_Some: "those_list (map (\<lambda>x. Some (f x)) xs) = Some (map f xs)"
  by (induction xs) auto

lemma length_concat_const: "\<forall>r\<in>set xss. length r = n \<Longrightarrow> length (concat xss) = n * length xss"
  by (induction xss) auto

lemma row_span_sum_plain:
  assumes "\<forall>c\<in>set r. cell_cols c = None"
  shows "row_span_sum r = Some (int (length r))"
proof -
  have "those_list (map num_spanning_cols r) = Some (map (\<lambda>c. 1) r)"
    using assms by (induction r) (auto simp: num_spanning_cols_def)
  moreover have "sum_list (map (\<lambda>c. 1::int) r) = int (length r)"
    by (induction r) auto
  ultimately show ?thesis
    by (simp add: row_span_sum_def)
qed

lemma num_cols_rectangular:
  assumes rect: "\<forall>r\<in>set table_soup. length r = n \<and> (\<forall>c\<in>set r. cell_cols c = None)"
    and ne: "table_soup \<noteq> []"
  shows "num_cols table_soup = Inr (int n)"
proof -
  have sums: "map row_span_sum table_soup = map (\<lambda>r. Some (int n)) table_soup"
    using rect by (simp add: row_span_sum_plain)
  have lens: "map (\<lambda>r. int (length r)) table_soup = map (\<lambda>r. int n) table_soup"
    using rect by simp
  obtain r rs where rs: "table_soup = r # rs"
    using ne by (cases table_soup) auto
  have "max_list (map (\<lambda>r. int n) table_soup @ map (\<lambda>r. int n) table_soup) = Some (int n)"
    by (simp add: max_list_def rs foldl_max_const)
  then show ?thesis
    by (simp add: num_cols_def sums lens those_list_map_Some)
qed

text \<open>
  C8 (as amended). \<open>has_at_least_2_cols\<close> does not compute a column count: it holds exactly
  when the tree has at least 4 cells in all and at least 2 rows. On a rectangular tree
  without column spans (every row has the same number \<open>n\<close> of cells) with at least 2 rows,
  the column count of \<open>soup_to_json\<close> is \<open>n\<close> and the predicate holds exactly when
  \<open>n\<close> times the number of rows is at least 4; so there at least 2 columns give the predicate.
\<close>

theorem has_at_least_2_cols_counts_cells:
  "(has_at_least_2_cols table_soup \<longleftrightarrow>
      4 \<le> sum_list (map length table_soup) \<and> has_at_least_2_rows table_soup) \<and>
   ((\<forall>r\<in>set table_soup. length r = n \<and> (\<forall>c\<in>set r. cell_cols c = None)) \<and>
      2 \<le> length table_soup \<longrightarrow>
      num_cols table_soup = Inr (int n) \<and>
      (has_at_least_2_cols table_soup \<longleftrightarrow> 4 \<le> n * length table_soup) \<and>
      (2 \<le> n \<longrightarrow> has_at_least_2_cols table_soup))"
proof (intro conjI impI)
  show "has_at_least_2_cols table_soup \<longleftrightarrow>
      4 \<le> sum_list (map length table_soup) \<and> has_at_least_2_rows table_soup"
    by (simp add: has_at_least_2_cols_def has_at_least_2_rows_def length_concat)
next
  assume h: "(\<forall>r\<in>set table_soup. length r = n \<and> (\<forall>c\<in>set r. cell_cols c = None)) \<and>
      2 \<le> length table_soup"
  then have ne: "table_soup \<noteq> []" by auto
  show "num_cols table_soup = Inr (int n)"
    using h ne by (intro num_cols_rectangular) auto
  have len: "length (concat table_soup) = n * length table_soup"
    using h by (intro length_concat_const) auto
  show iff: "has_at_least_2_cols table_soup \<longleftrightarrow> 4 \<le> n * length table_soup"
    using h by (simp add: has_at_least_2_cols_def len)
  assume n2: "2 \<le> n"
  have "2 * 2 \<le> n * length table_soup"
    using n2 h by (intro mult_le_mono) auto
  then show "has_at_least_2_cols table_soup"
    using iff by simp
qed

theorem has_at_least_2_cols_counts_cells_witness:
  "num_cols [[plain_cell ''a'', plain_cell ''b''], [plain_cell ''c'', plain_cell ''d'']] = Inr 2 \<and>
   has_at_least_2_cols [[plain_cell ''a'', plain_cell ''b''], [plain_cell ''c'', plain_cell ''d'']]"
  using has_at_least_2_cols_counts_cells
    [of "[[plain_cell ''a'', plain_cell ''b''], [plain_cell ''c'', plain_cell ''d'']]" 2]
  by (simp add: plain_cell_def has_at_least_2_rows_def)

text \<open>
  The claim as stated fails in both directions: four rows of one cell each pass the
  predicate with a column count of 1, and two rows of one cell spanning two columns each
  have a column count of 2 and fail it.
\<close>

theorem has_at_least_2_cols_counterexample:
  "has_at_least_2_cols [[plain_cell ''a''], [plain_cell ''b''], [plain_cell ''c''], [plain_cell ''d'']] \<and>
   num_cols [[plain_cell ''a''], [plain_cell ''b''], [plain_cell ''c''], [plain_cell ''d'']] = Inr 1 \<and>
   \<not> has_at_least_2_cols [[wide_cell ''2'' ''a''], [wide_cell ''2'' ''b'']] \<and>
   num_cols [[wide_cell ''2'' ''a''], [wide_cell ''2'' ''b'']] = Inr 2 \<and>
   has_at_least_2_rows [[wide_cell ''2'' ''a''], [wide_cell ''2'' ''b'']]"
  by (simp add: has_at_least_2_cols_def has_at_least_2_rows_def num_cols_def row_span_sum_def
      num_spanning_cols_def plain_cell_def wide_cell_def max_list_def py_int_def strip_def
      is_space_def digit_groups.simps is_digit_def digits_val_def digit_val_def)








lemma filter_enumerate_nths:
  "map snd (filter (\<lambda>(i, v). P i) (enumerate n xs)) = nths xs {i. P (n + i)}"
  by (induction xs arbitrary: n) (auto simp: nths_Cons)

lemma drop_rows_nths: "drop_rows rr vals = nths vals {i. i \<notin> set rr}"
  using filter_enumerate_nths [of "\<lambda>i. i \<notin> set rr" 0 vals] by (simp add: drop_rows_def)

lemma prune_rows_char:
  "prune_rows f ids rs rr hs nm = Inr (rr', hs', nm') \<Longrightarrow>
     rr' = rr @ map row (filter (\<lambda>r. should_remove_row f ids r = Inr True) rs) \<and>
     nm' = nm @ map (\<lambda>(i, r). r\<lparr>row := i\<rparr>)
                 (enumerate (length nm) (filter (\<lambda>r. should_remove_row f ids r = Inr False) rs))"
proof (induction rs arbitrary: rr hs nm)
  case Nil
  then show ?case by simp
next
  case (Cons r rs)
  show ?case
  proof (cases "should_remove_row f ids r")
    case (Inl e)
    with Cons.prems show ?thesis by simp
  next
    case (Inr b)
    show ?thesis
    proof (cases b)
      case True
      with Inr Cons.prems Cons.IH [of "rr @ [row r]" "hs @ [bib_hash_or_arxiv_id r]" nm]
      show ?thesis by simp
    next
      case False
      with Inr Cons.prems Cons.IH [of rr hs "nm @ [r\<lparr>row := length nm\<rparr>]"]
      show ?thesis by simp
    qed
  qed
qed

lemma collect_remove_cols_char:
  "collect_remove_cols f old d acc = Inr rc \<Longrightarrow>
     \<exists>names. length names = length d \<and>
       (\<forall>i < length d. column_rules f old (fst (d ! i)) (snd (d ! i)) = Inr (names ! i)) \<and>
       rc = acc @ concat names"
proof (induction d arbitrary: acc)
  case Nil
  then show ?case by simp
next
  case (Cons cv d)
  obtain col vals where cv: "cv = (col, vals)" by (cases cv)
  from Cons.prems cv obtain ns where ns: "column_rules f old col vals = Inr ns"
    and rest: "collect_remove_cols f old d (acc @ ns) = Inr rc"
    by (auto split: sum.splits)
  from Cons.IH [OF rest] obtain names where names: "length names = length d"
    "\<forall>i < length d. column_rules f old (fst (d ! i)) (snd (d ! i)) = Inr (names ! i)"
    "rc = (acc @ ns) @ concat names"
    by blast
  have "\<forall>i < length (cv # d). column_rules f old (fst ((cv # d) ! i)) (snd ((cv # d) ! i)) =
          Inr ((ns # names) ! i)"
    using names(2) ns cv by (auto simp: nth_Cons split: nat.splits)
  then show ?case
    using names(1,3) by (intro exI [of _ "ns # names"]) auto
qed


lemma in_if_single: "x \<in> set (if A then [y] else []) \<longleftrightarrow> A \<and> y = x"
  by auto

lemma skip_iff:
  "(if c then Inr (None, s) else X) = Inr (Some t', s') \<longleftrightarrow> \<not> c \<and> X = Inr (Some t', s')"
  by simp

lemma raise_iff: "(if c then Inl e else X) = Inr y \<longleftrightarrow> \<not> c \<and> X = Inr y"
  by simp

lemma case_sum_Inr_iff:
  "(case x of Inl e \<Rightarrow> Inl e | Inr r \<Rightarrow> g r) = Inr y \<longleftrightarrow> (\<exists>r. x = Inr r \<and> g r = Inr y)"
  by (cases x) auto

lemma case_option_Inr_iff:
  "(case m of None \<Rightarrow> Inl e | Some r \<Rightarrow> g r) = Inr y \<longleftrightarrow> (\<exists>r. m = Some r \<and> g r = Inr y)"
  by (cases m) auto

lemma column_rules_mem:
  assumes "column_rules f old col vals = Inr names"
  shows "x \<in> set names \<longleftrightarrow>
     ((only_citations vals \<and> Some col = x) \<or> (numeric_header col \<and> Some col = x) \<or>
      ((''cols_no_formula'' \<in> set f \<and> list_ex (contains ''{{formula:'') (vals @ [col])) \<and>
         Some col = x) \<or>
      ((''cols_no_formula_colname'' \<in> set f \<and> contains ''{{formula:'' col) \<and> Some col = x) \<or>
      ((''cols_no_names'' \<in> set f \<and> lower col \<in> set name_headers) \<and> Some col = x) \<or>
      ((''col_no_generic'' \<in> set f \<and> col \<in> set generic_headers) \<and> Some col = x) \<or>
      (''cols_no_old_citation_col'' \<in> set f \<and> old = x) \<or>
      ((''cols_no_float'' \<in> set f \<and> list_ex FLOAT_REGEX_search (vals @ [col])) \<and> Some col = x) \<or>
      ((''cols_no_figure'' \<in> set f \<and> list_ex (contains ''{{figure'') (vals @ [col])) \<and>
         Some col = x) \<or>
      ((''cols_no_numeric'' \<in> set f \<and> get_aspect_type vals = Inr ''num'') \<and> Some col = x) \<or>
      ((''cols_no_ent_or_gen'' \<in> set f \<and>
         (get_aspect_type vals = Inr ''gen'' \<or> get_aspect_type vals = Inr ''ent'')) \<and> Some col = x))"
proof (cases "''cols_no_ent_or_gen'' \<in> set f \<or> ''cols_no_numeric'' \<in> set f")
  case True
  with assms obtain a where a: "get_aspect_type vals = Inr a"
    unfolding column_rules_def Let_def by (cases "get_aspect_type vals") auto
  from assms True a have "names =
            (if only_citations vals then [Some col] else []) @
            (if numeric_header col then [Some col] else []) @
            (if ''cols_no_formula'' \<in> set f \<and> list_ex (contains ''{{formula:'') (vals @ [col])
             then [Some col] else []) @
            (if ''cols_no_formula_colname'' \<in> set f \<and> contains ''{{formula:'' col
             then [Some col] else []) @
            (if ''cols_no_names'' \<in> set f \<and> lower col \<in> set name_headers
             then [Some col] else []) @
            (if (''col_no_generic'' \<in> set f \<and> col \<in> set generic_headers) \<or> False
             then [Some col] else []) @
            (if ''cols_no_old_citation_col'' \<in> set f then [old] else []) @
            (if ''cols_no_float'' \<in> set f \<and> list_ex FLOAT_REGEX_search (vals @ [col])
             then [Some col] else []) @
            (if ''cols_no_figure'' \<in> set f \<and> list_ex (contains ''{{figure'') (vals @ [col])
             then [Some col] else []) @
            (if ''cols_no_numeric'' \<in> set f \<and> a = ''num'' then [Some col] else []) @
            (if ''cols_no_ent_or_gen'' \<in> set f \<and> a \<in> set [''gen'', ''ent'']
             then [Some col] else [])"
    unfolding column_rules_def Let_def
    by (simp only: if_True sum.case sum.inject append_assoc)
  then show ?thesis
    unfolding a sum.inject
    by (simp only: set_append Un_iff in_if_single simp_thms list.set insert_iff empty_iff)
next
  case False
  from assms False have "names =
            (if only_citations vals then [Some col] else []) @
            (if numeric_header col then [Some col] else []) @
            (if ''cols_no_formula'' \<in> set f \<and> list_ex (contains ''{{formula:'') (vals @ [col])
             then [Some col] else []) @
            (if ''cols_no_formula_colname'' \<in> set f \<and> contains ''{{formula:'' col
             then [Some col] else []) @
            (if ''cols_no_names'' \<in> set f \<and> lower col \<in> set name_headers
             then [Some col] else []) @
            (if (''col_no_generic'' \<in> set f \<and> col \<in> set generic_headers) \<or> False
             then [Some col] else []) @
            (if ''cols_no_old_citation_col'' \<in> set f then [old] else []) @
            (if ''cols_no_float'' \<in> set f \<and> list_ex FLOAT_REGEX_search (vals @ [col])
             then [Some col] else []) @
            (if ''cols_no_figure'' \<in> set f \<and> list_ex (contains ''{{figure'') (vals @ [col])
             then [Some col] else [])"
    unfolding column_rules_def Let_def
    by (simp only: if_False sum.inject)
  then have "x \<in> set names \<longleftrightarrow>
     ((only_citations vals \<and> Some col = x) \<or> (numeric_header col \<and> Some col = x) \<or>
      ((''cols_no_formula'' \<in> set f \<and> list_ex (contains ''{{formula:'') (vals @ [col])) \<and>
         Some col = x) \<or>
      ((''cols_no_formula_colname'' \<in> set f \<and> contains ''{{formula:'' col) \<and> Some col = x) \<or>
      ((''cols_no_names'' \<in> set f \<and> lower col \<in> set name_headers) \<and> Some col = x) \<or>
      ((''col_no_generic'' \<in> set f \<and> col \<in> set generic_headers) \<and> Some col = x) \<or>
      (''cols_no_old_citation_col'' \<in> set f \<and> old = x) \<or>
      ((''cols_no_float'' \<in> set f \<and> list_ex FLOAT_REGEX_search (vals @ [col])) \<and> Some col = x) \<or>
      ((''cols_no_figure'' \<in> set f \<and> list_ex (contains ''{{figure'') (vals @ [col])) \<and>
         Some col = x))"
    by (simp only: set_append Un_iff in_if_single simp_thms list.set insert_iff empty_iff)
  then show ?thesis
    using False by simp
qed

lemma column_rules_own:
  assumes "column_rules f old col vals = Inr names"
  shows "Some col \<in> set names \<longleftrightarrow> column_rule_matches f old col vals"
  unfolding column_rules_mem [OF assms] column_rule_matches_def
  by (simp only: simp_thms eq_commute [of old])

lemma column_rules_other:
  assumes "column_rules f old col vals = Inr names" and "c \<noteq> col"
  shows "Some c \<in> set names \<longleftrightarrow> ''cols_no_old_citation_col'' \<in> set f \<and> old = Some c"
proof -
  have ne: "(Some col = Some c) = False" using assms(2) by simp
  show ?thesis
    unfolding column_rules_mem [OF assms(1)] ne by (simp only: simp_thms)
qed

lemma remove_cols_iff:
  assumes rc: "collect_remove_cols f old d [] = Inr rc"
    and dist: "distinct (map fst d)"
    and mem: "(col, vals) \<in> set d"
  shows "Some col \<in> set rc \<longleftrightarrow> column_rule_matches f old col vals"
proof -
  from collect_remove_cols_char [OF rc] obtain names where len: "length names = length d"
    and each: "\<forall>i < length d. column_rules f old (fst (d ! i)) (snd (d ! i)) = Inr (names ! i)"
    and rc_eq: "rc = concat names"
    by auto
  show ?thesis
  proof
    assume "Some col \<in> set rc"
    then obtain ns where "ns \<in> set names" "Some col \<in> set ns"
      unfolding rc_eq by auto
    then obtain i where i: "i < length d" "Some col \<in> set (names ! i)"
      using len by (auto simp: in_set_conv_nth)
    have cr: "column_rules f old (fst (d ! i)) (snd (d ! i)) = Inr (names ! i)"
      using each i(1) by blast
    show "column_rule_matches f old col vals"
    proof (cases "fst (d ! i) = col")
      case True
      have "d ! i \<in> set d" using i(1) by simp
      then have "(col, snd (d ! i)) \<in> set d" using True by (metis prod.collapse)
      then have "snd (d ! i) = vals"
        using dist mem by (meson eq_key_imp_eq_value)
      with True cr i(2) show ?thesis
        using column_rules_own by blast
    next
      case False
      then have "col \<noteq> fst (d ! i)" by blast
      from column_rules_other [OF cr this] i(2)
      show ?thesis by (simp add: column_rule_matches_def)
    qed
  next
    assume m: "column_rule_matches f old col vals"
    from mem obtain i where i: "i < length d" "d ! i = (col, vals)"
      by (auto simp: in_set_conv_nth)
    have cr: "column_rules f old col vals = Inr (names ! i)"
      using each i by force
    then have "Some col \<in> set (names ! i)"
      using m column_rules_own by blast
    moreover have "names ! i \<in> set names"
      using i(1) len by simp
    ultimately show "Some col \<in> set rc"
      unfolding rc_eq by auto
  qed
qed

lemma new_table_dict_keys:
  "map fst (new_table_dict_of rc rr d) =
     filter (\<lambda>col. col = ''References'' \<or> Some col \<notin> set rc) (map fst d)"
  by (induction d) (auto simp: new_table_dict_of_def)

lemma new_table_dict_keys_rules:
  assumes rc: "collect_remove_cols f old d [] = Inr rc"
    and dist: "distinct (map fst d)"
  shows "map fst (new_table_dict_of rc rr d) =
     filter (\<lambda>col. col = ''References'' \<or> \<not> column_rule_matches f old col (the (map_of d col)))
       (map fst d)"
  unfolding new_table_dict_keys
proof (rule filter_cong [OF refl])
  fix col
  assume "col \<in> set (map fst d)"
  then obtain vals where mem: "(col, vals) \<in> set d" by auto
  then have "map_of d col = Some vals"
    using dist by simp
  then show "(col = ''References'' \<or> Some col \<notin> set rc) =
     (col = ''References'' \<or> \<not> column_rule_matches f old col (the (map_of d col)))"
    using remove_cols_iff [OF rc dist mem] by simp
qed

lemma process_table_kept:
  assumes "process_table f ids s t = Inr (Some t', s')"
  shows "\<exists>refs rr hs nm rc.
     caption_reject f (caption t) = Inr False \<and>
     map_of (table_dict (table_json t)) ''References'' = Some refs \<and>
     prune_rows f ids (row_bib_map t) [] [] [] = Inr (rr, hs, nm) \<and>
     collect_remove_cols f (old_citation_column (table_json t)) (table_dict (table_json t)) [] = Inr rc \<and>
     t' = t\<lparr>table_json := (table_json t)\<lparr>table_dict :=
               new_table_dict_of rc rr (table_dict (table_json t))\<rparr>, row_bib_map := nm\<rparr> \<and>
     min_cols f \<le> length (new_table_dict_of rc rr (table_dict (table_json t)))"
proof -
  from assms have "\<exists>reject refs. caption_reject f (caption t) = Inr reject \<and> \<not> reject \<and>
      map_of (table_dict (table_json t)) ''References'' = Some refs \<and>
      prune_table f ids s t refs = Inr (Some t', s')"
    unfolding process_table_def Let_def
    by (simp only: skip_iff raise_iff case_sum_Inr_iff case_option_Inr_iff) blast
  then obtain refs where cap: "caption_reject f (caption t) = Inr False"
    and refs: "map_of (table_dict (table_json t)) ''References'' = Some refs"
    and pt: "prune_table f ids s t refs = Inr (Some t', s')"
    by auto
  from pt have "\<exists>rr hs nm rc. prune_rows f ids (row_bib_map t) [] [] [] = Inr (rr, hs, nm) \<and>
      collect_remove_cols f (old_citation_column (table_json t)) (table_dict (table_json t)) [] = Inr rc \<and>
      keep_table f s t rr nm rc = Inr (Some t', s')"
    unfolding prune_table_def
    by (simp only: skip_iff raise_iff case_sum_Inr_iff split_paired_Ex prod.case) blast
  then obtain rr hs nm rc where pr: "prune_rows f ids (row_bib_map t) [] [] [] = Inr (rr, hs, nm)"
    and rc: "collect_remove_cols f (old_citation_column (table_json t)) (table_dict (table_json t)) [] = Inr rc"
    and kt: "keep_table f s t rr nm rc = Inr (Some t', s')"
    by blast
  from kt have "t' = t\<lparr>table_json := (table_json t)\<lparr>table_dict :=
               new_table_dict_of rc rr (table_dict (table_json t))\<rparr>, row_bib_map := nm\<rparr> \<and>
     min_cols f \<le> length (new_table_dict_of rc rr (table_dict (table_json t)))"
    unfolding keep_table_def Let_def
    by (simp only: skip_iff) (simp split: if_splits)
  with cap refs pr rc show ?thesis by blast
qed

lemma high_quality_loop_mem:
  "high_quality_loop f ids ts seen acc = Inr out \<Longrightarrow> t' \<in> set out \<Longrightarrow>
     t' \<in> set acc \<or> (\<exists>t\<in>set ts. \<exists>s s'. process_table f ids s t = Inr (Some t', s'))"
proof (induction ts arbitrary: seen acc)
  case Nil
  then show ?case by simp
next
  case (Cons t ts)
  show ?case
  proof (cases "process_table f ids seen t")
    case (Inl e)
    with Cons.prems show ?thesis by simp
  next
    case (Inr r)
    obtain o' seen' where r: "r = (o', seen')" by (cases r)
    show ?thesis
    proof (cases o')
      case None
      with Inr r Cons.prems Cons.IH [of seen' acc] show ?thesis by auto
    next
      case (Some tc)
      with Inr r Cons.prems Cons.IH [of seen' "acc @ [tc]"] show ?thesis by auto
    qed
  qed
qed





lemma get_high_quality_tables_loop:
  "get_high_quality_tables ftids tables fa =
     high_quality_loop (effective_filters fa)
       (if ''rows_no_missing_full_texts'' \<in> set (effective_filters fa) then ftids else []) tables [] []"
  by (simp add: get_high_quality_tables_def effective_filters_def Let_def)

lemma get_high_quality_tables_kept:
  assumes "get_high_quality_tables ftids tables fa = Inr out" and "t' \<in> set out"
  shows "\<exists>t\<in>set tables. \<exists>ids s s'. process_table (effective_filters fa) ids s t = Inr (Some t', s')"
  using high_quality_loop_mem [OF assms(1) [unfolded get_high_quality_tables_loop] assms(2)]
  by auto



lemma new_table_dict_nths:
  "new_table_dict_of rc rr d =
     map (\<lambda>(col, vals). (col, nths vals {i. i \<notin> set rr}))
       (filter (\<lambda>(col, vals). \<not> (Some col \<in> set rc \<and> col \<noteq> ''References'')) d)"
  by (simp add: new_table_dict_of_def drop_rows_nths)

lemma map_row_renumber:
  "map row (map (\<lambda>(i, r). r\<lparr>row := i\<rparr>) (enumerate n ks)) = [n..<n + length ks]"
proof -
  have "map row (map (\<lambda>(i, r). r\<lparr>row := i\<rparr>) (enumerate n ks)) = map fst (enumerate n ks)"
    by (simp add: case_prod_beta comp_def)
  then show ?thesis by simp
qed

text \<open>
  C7. Every record of the result of \<open>get_high_quality_tables\<close> comes from a record of the
  input and differs from it in \<open>table_dict\<close> and \<open>row_bib_map\<close> only. Its columns are
  columns of the input, in their order, \<open>References\<close> among them, each with the values of
  the input at the row positions that are not removed, the same positions for every column.
  Its \<open>row_bib_map\<close> entries are entries of the input, in their order, renumbered
  0, 1, 2 and so on.
\<close>

theorem pipeline_only_removes:
  assumes "get_high_quality_tables ftids tables fa = Inr out" and "t' \<in> set out"
  shows "\<exists>t\<in>set tables. \<exists>remove_rows keep_col kept.
     t' = t\<lparr>table_json := (table_json t)\<lparr>table_dict := table_dict (table_json t')\<rparr>,
            row_bib_map := row_bib_map t'\<rparr> \<and>
     table_dict (table_json t') =
       map (\<lambda>(col, vals). (col, nths vals {i. i \<notin> set remove_rows}))
         (filter keep_col (table_dict (table_json t))) \<and>
     set (map fst (table_dict (table_json t'))) \<subseteq> set (map fst (table_dict (table_json t))) \<and>
     ''References'' \<in> set (map fst (table_dict (table_json t'))) \<and>
     subseq kept (row_bib_map t) \<and>
     row_bib_map t' = map (\<lambda>(i, r). r\<lparr>row := i\<rparr>) (enumerate 0 kept) \<and>
     map row (row_bib_map t') = [0..<length (row_bib_map t')]"
proof -
  from get_high_quality_tables_kept [OF assms] obtain t ids s s'
    where t: "t \<in> set tables"
      and p: "process_table (effective_filters fa) ids s t = Inr (Some t', s')"
    by blast
  define d where "d = table_dict (table_json t)"
  from process_table_kept [OF p] obtain refs rr hs nm rc
    where refs: "map_of d ''References'' = Some refs"
      and pr: "prune_rows (effective_filters fa) ids (row_bib_map t) [] [] [] = Inr (rr, hs, nm)"
      and t': "t' = t\<lparr>table_json := (table_json t)\<lparr>table_dict :=
               new_table_dict_of rc rr d\<rparr>, row_bib_map := nm\<rparr>"
    unfolding d_def by blast
  define keep_col where
    "keep_col = (\<lambda>(col, vals :: string list). \<not> (Some col \<in> set rc \<and> col \<noteq> ''References''))"
  define kept where
    "kept = filter (\<lambda>r. should_remove_row (effective_filters fa) ids r = Inr False) (row_bib_map t)"
  have td: "table_dict (table_json t') = new_table_dict_of rc rr d"
    and rb: "row_bib_map t' = nm"
    using t' by simp_all
  have 1: "t' = t\<lparr>table_json := (table_json t)\<lparr>table_dict := table_dict (table_json t')\<rparr>,
            row_bib_map := row_bib_map t'\<rparr>"
    unfolding td rb by (rule t')
  have 2: "table_dict (table_json t') =
       map (\<lambda>(col, vals). (col, nths vals {i. i \<notin> set rr})) (filter keep_col d)"
    unfolding td keep_col_def by (rule new_table_dict_nths)
  have keys: "map fst (table_dict (table_json t')) = map fst (filter keep_col d)"
    unfolding 2 by (simp add: case_prod_beta comp_def)
  have 3: "set (map fst (table_dict (table_json t'))) \<subseteq> set (map fst d)"
    unfolding keys by auto
  have "(''References'', refs) \<in> set d"
    using refs by (rule map_of_SomeD)
  then have "(''References'', refs) \<in> set (filter keep_col d)"
    by (simp add: keep_col_def)
  then have 4: "''References'' \<in> set (map fst (table_dict (table_json t')))"
    unfolding keys by force
  have 5: "subseq kept (row_bib_map t)"
    unfolding kept_def by simp
  have 6: "row_bib_map t' = map (\<lambda>(i, r). r\<lparr>row := i\<rparr>) (enumerate 0 kept)"
    using prune_rows_char [OF pr] unfolding rb kept_def by simp
  have 7: "map row (row_bib_map t') = [0..<length (row_bib_map t')]"
    unfolding 6 map_row_renumber by simp
  from t 1 2 3 4 5 6 7 show ?thesis
    unfolding d_def by blast
qed

text \<open>
  C5 (as amended). For a record of the result of \<open>get_high_quality_tables\<close> (the column
  names of the input being distinct, as the keys of a dictionary are): a column other than
  \<open>References\<close> is removed exactly when a column rule matches it, where the rule of the
  cells that are all dashes or bare citations and the rule of the numeric header apply
  under no flag, and every other rule applies under its flag only; the record has at least
  3 columns, or 2 under a flag of the aspect rules. With no flag at all the two
  unconditional rules are the ones that remove columns.
\<close>

theorem column_removal_rules:
  assumes "get_high_quality_tables ftids tables fa = Inr out" and "t' \<in> set out"
    and "\<forall>t\<in>set tables. distinct (map fst (table_dict (table_json t)))"
  shows "\<exists>t\<in>set tables.
     map fst (table_dict (table_json t')) =
       filter (\<lambda>col. col = ''References'' \<or>
                 \<not> column_rule_matches (effective_filters fa) (old_citation_column (table_json t)) col
                     (the (map_of (table_dict (table_json t)) col)))
         (map fst (table_dict (table_json t))) \<and>
     min_cols (effective_filters fa) \<le> length (table_dict (table_json t')) \<and>
     (\<forall>old col vals.
        column_rule_matches [] old col vals \<longleftrightarrow> only_citations vals \<or> numeric_header col)"
proof -
  from get_high_quality_tables_kept [OF assms(1,2)] obtain t ids s s'
    where t: "t \<in> set tables"
      and p: "process_table (effective_filters fa) ids s t = Inr (Some t', s')"
    by blast
  from process_table_kept [OF p] obtain rr nm rc
    where rc: "collect_remove_cols (effective_filters fa) (old_citation_column (table_json t))
                 (table_dict (table_json t)) [] = Inr rc"
      and t': "t' = t\<lparr>table_json := (table_json t)\<lparr>table_dict :=
               new_table_dict_of rc rr (table_dict (table_json t))\<rparr>, row_bib_map := nm\<rparr>"
      and m: "min_cols (effective_filters fa) \<le> length (new_table_dict_of rc rr (table_dict (table_json t)))"
    by blast
  have td: "table_dict (table_json t') = new_table_dict_of rc rr (table_dict (table_json t))"
    using t' by simp
  have dist: "distinct (map fst (table_dict (table_json t)))"
    using assms(3) t by blast
  have "column_rule_matches [] old col vals \<longleftrightarrow> only_citations vals \<or> numeric_header col"
    for old col vals
    by (simp add: column_rule_matches_def)
  then show ?thesis
    using t m new_table_dict_keys_rules [OF rc dist, of rr] unfolding td by blast
qed



theorem pipeline_only_removes_witness:
  "get_high_quality_tables [] [example_table] (Some [''rows_no_missing_titles'']) =
     Inr [example_table_pruned] \<and>
   ''References'' \<in> set (map fst (table_dict (table_json example_table_pruned))) \<and>
   map row (row_bib_map example_table_pruned) = [0..<length (row_bib_map example_table_pruned)]"
proof -
  have r: "get_high_quality_tables [] [example_table] (Some [''rows_no_missing_titles'']) =
     Inr [example_table_pruned]"
    by code_simp
  have m: "example_table_pruned \<in> set [example_table_pruned]"
    by simp
  show ?thesis
    using r pipeline_only_removes [OF r m] by blast
qed

theorem column_removal_rules_witness:
  "get_high_quality_tables [] [example_table] (Some [''rows_no_missing_titles'']) =
     Inr [example_table_pruned] \<and>
   distinct (map fst (table_dict (table_json example_table))) \<and>
   min_cols (effective_filters (Some [''rows_no_missing_titles''])) \<le>
     length (table_dict (table_json example_table_pruned))"
proof -
  have r: "get_high_quality_tables [] [example_table] (Some [''rows_no_missing_titles'']) =
     Inr [example_table_pruned]"
    by code_simp
  have m: "example_table_pruned \<in> set [example_table_pruned]"
    by simp
  have d: "distinct (map fst (table_dict (table_json example_table)))"
    by code_simp
  then have d': "\<forall>t\<in>set [example_table]. distinct (map fst (table_dict (table_json t)))"
    by simp
  show ?thesis
    using r d column_removal_rules [OF r m d'] by blast
qed

text \<open>
  With no flag enabled the column \<open>Extra\<close>, whose cells are all dashes, is removed.
\<close>

theorem column_removal_counterexample:
  "map fst (table_dict (table_json example_table)) = [''References'', ''Extra'', ''Task'', ''Data''] \<and>
   map_sum id (map (\<lambda>t. map fst (table_dict (table_json t))))
     (get_high_quality_tables [] [example_table] (Some [])) = Inr [[''References'', ''Task'', ''Data'']]"
  by code_simp


text \<open>
  C1 (as amended). For a table that the label filters do not skip, \<open>create_dataset\<close>
  catches what \<open>soup_to_json\<close> raises: then, and when the reconstruction is empty, the hash
  of the table is recorded as skipped and the loop goes on with the next table. What
  \<open>get_table_row_bib_map\<close> raises (a \<open>KeyError\<close> for a citation key that is not among the
  known keys) is not caught: it ends the loop, whatever tables follow.
\<close>

theorem create_dataset_catches_reconstruction_only:
  assumes "lt_labels t = None \<or>
           (\<exists>labels. lt_labels t = Some labels \<and> should_skip_table (map_of labels) filters = Inr False)"
  shows "((\<exists>e. soup_to_json (lt_soup t) = Inl e) \<or>
          (\<exists>r. soup_to_json (lt_soup t) = Inr r \<and> table_dict r = []) \<longrightarrow>
            create_loop filters (t # ts) acc =
              create_loop filters ts
                (acc\<lparr>skipped_table_hashes := skipped_table_hashes acc @ [lt_table_hash t]\<rparr>)) \<and>
         (\<forall>r e. soup_to_json (lt_soup t) = Inr r \<and> table_dict r \<noteq> [] \<and>
                 get_table_row_bib_map (table_dict r) (cite_shas_of (lt_soup t)) (lt_paper_id t) = Inl e \<longrightarrow>
            create_loop filters (t # ts) acc = Inl e)"
proof -
  have ct: "create_table filters t acc = create_sample t acc"
    using assms by (auto simp: create_table_def)
  show ?thesis
  proof (intro conjI impI allI)
    assume "(\<exists>e. soup_to_json (lt_soup t) = Inl e) \<or>
          (\<exists>r. soup_to_json (lt_soup t) = Inr r \<and> table_dict r = [])"
    then have "create_sample t acc =
        Inr (acc\<lparr>skipped_table_hashes := skipped_table_hashes acc @ [lt_table_hash t]\<rparr>)"
      by (auto simp: create_sample_def sentinel_def)
    then show "create_loop filters (t # ts) acc =
              create_loop filters ts
                (acc\<lparr>skipped_table_hashes := skipped_table_hashes acc @ [lt_table_hash t]\<rparr>)"
      by (simp add: ct)
  next
    fix r e
    assume "soup_to_json (lt_soup t) = Inr r \<and> table_dict r \<noteq> [] \<and>
                 get_table_row_bib_map (table_dict r) (cite_shas_of (lt_soup t)) (lt_paper_id t) = Inl e"
    then have "create_sample t acc = Inl e"
      by (simp add: create_sample_def)
    then show "create_loop filters (t # ts) acc = Inl e"
      by (simp add: ct)
  qed
qed

theorem create_dataset_catches_reconstruction_only_witness:
  "create_loop [] [overlong_span_table, mapped_table]
      \<lparr>dataset = [], skipped_table_hashes = [], missing_bib_hashes = []\<rparr> =
    create_loop [] [mapped_table]
      \<lparr>dataset = [], skipped_table_hashes = [''hash-span''], missing_bib_hashes = []\<rparr> \<and>
   create_loop [] [unmapped_table, mapped_table]
      \<lparr>dataset = [], skipped_table_hashes = [], missing_bib_hashes = []\<rparr> = Inl KeyError"
proof -
  have l1: "lt_labels overlong_span_table = None" and l2: "lt_labels unmapped_table = None"
    by (simp_all add: overlong_span_table_def unmapped_table_def)
  have s1: "soup_to_json (lt_soup overlong_span_table) =
      Inr (sentinel [[''Model'', ''Task''], [''{{cite:abc1234}}'', []]] [])"
    by code_simp
  have s2: "soup_to_json (lt_soup unmapped_table) =
      Inr \<lparr>table = [[''Model'', ''Task''], [''BERT {{cite:abc1234}}'', ''QA''],
                     [''GPT {{cite:0123456}}'', ''LM'']],
           incomplete_rows = [], old_citation_column = Some ''Model'',
           table_dict = [(''References'', [''{{cite:abc1234}}'', ''{{cite:0123456}}'']),
                         (''Model'', [''BERT'', ''GPT'']), (''Task'', [''QA'', ''LM''])]\<rparr>"
    by code_simp
  have g: "get_table_row_bib_map
      [(''References'', [''{{cite:abc1234}}'', ''{{cite:0123456}}'']),
       (''Model'', [''BERT'', ''GPT'']), (''Task'', [''QA'', ''LM''])]
      (cite_shas_of (lt_soup unmapped_table)) (lt_paper_id unmapped_table) = Inl KeyError"
    by code_simp
  have h1: "lt_table_hash overlong_span_table = ''hash-span''"
    by (simp add: overlong_span_table_def)
  from create_dataset_catches_reconstruction_only [of overlong_span_table "[]" "[mapped_table]"
      "\<lparr>dataset = [], skipped_table_hashes = [], missing_bib_hashes = []\<rparr>"] l1 s1 h1
  have a: "create_loop [] [overlong_span_table, mapped_table]
      \<lparr>dataset = [], skipped_table_hashes = [], missing_bib_hashes = []\<rparr> =
    create_loop [] [mapped_table]
      \<lparr>dataset = [], skipped_table_hashes = [''hash-span''], missing_bib_hashes = []\<rparr>"
    by (simp add: sentinel_def)
  from create_dataset_catches_reconstruction_only [of unmapped_table "[]" "[mapped_table]"
      "\<lparr>dataset = [], skipped_table_hashes = [], missing_bib_hashes = []\<rparr>"] l2 s2 g
  have b: "create_loop [] [unmapped_table, mapped_table]
      \<lparr>dataset = [], skipped_table_hashes = [], missing_bib_hashes = []\<rparr> = Inl KeyError"
    by simp
  from a b show ?thesis by simp
qed

text \<open>
  A table whose citation marker has no known key aborts the batch: the table that follows
  it, which alone is assembled without failure, is never reached.
\<close>

theorem create_dataset_mapping_failure_counterexample:
  "create_dataset [unmapped_table, mapped_table] [] = Inl KeyError \<and>
   map_sum id (\<lambda>a. (map table_hash (dataset a), skipped_table_hashes a))
     (create_dataset [mapped_table] []) = Inr ([''hash-mapped''], [])"
  by code_simp



lemma names_df_setitem:
  "key \<in> set (map fst df) \<Longrightarrow> map fst (df_setitem key new_vals df) = map fst df"
  by (simp add: df_setitem_def case_prod_beta comp_def)














lemma n_cites_pos: "0 < length (filter (\<lambda>c. cell_cits c \<noteq> []) cells) \<longleftrightarrow> has_cite_cell cells"
  by (auto simp: has_cite_cell_def list_ex_iff filter_empty_conv)

lemma n_cites_zero: "length (filter (\<lambda>c. cell_cits c \<noteq> []) cells) = 0 \<longleftrightarrow> \<not> has_cite_cell cells"
  by (auto simp: has_cite_cell_def list_ex_iff filter_empty_conv)

lemma fill_row_incomplete:
  assumes "incomplete_rule n (fs_seen_cites s) cells"
  shows "fill_row n s i cells =
     Continue (s\<lparr>fs_incomplete_rows := fs_incomplete_rows s @ [(i, map cell_text cells)],
                fs_header_rows := fs_header_rows s @
                  (if \<not> has_cite_cell cells \<and> i \<le> 1 \<and> \<not> fs_seen_cites s then [i] else []),
                fs_seen_cites := fs_seen_cites s \<or> has_cite_cell cells\<rparr>)"
  using assms
  unfolding fill_row_def row_header_rows_def Let_def n_cites_pos n_cites_zero incomplete_rule_def
    has_figure_cell_def
  by auto

lemma fill_row_Continue:
  assumes "fill_row n s i cells = Continue s'"
  shows "fs_seen_cites s' = (fs_seen_cites s \<or> has_cite_cell cells) \<and>
         set (fs_header_rows s') =
           set (fs_header_rows s) \<union> (if header_rule n (fs_seen_cites s) i cells then {i} else {}) \<and>
         fs_incomplete_rows s' =
           fs_incomplete_rows s @
             (if incomplete_rule n (fs_seen_cites s) cells then [(i, map cell_text cells)] else [])"
proof (cases "incomplete_rule n (fs_seen_cites s) cells")
  case True
  from fill_row_incomplete [OF True, of i] assms have
    "s' = s\<lparr>fs_incomplete_rows := fs_incomplete_rows s @ [(i, map cell_text cells)],
                fs_header_rows := fs_header_rows s @
                  (if \<not> has_cite_cell cells \<and> i \<le> 1 \<and> \<not> fs_seen_cites s then [i] else []),
                fs_seen_cites := fs_seen_cites s \<or> has_cite_cell cells\<rparr>"
    by simp
  with True show ?thesis
    by (auto simp: header_rule_def incomplete_rule_def)
next
  case False
  define hdr where "hdr =
     (if int (length cells) < n \<and> \<not> (fs_seen_cites s \<or> has_cite_cell cells)
      then (if \<not> has_cite_cell cells \<and> i \<le> 1 \<and> \<not> (fs_seen_cites s \<or> has_cite_cell cells)
            then fs_header_rows s @ [i] else fs_header_rows s) @ [i]
      else (if \<not> has_cite_cell cells \<and> i \<le> 1 \<and> \<not> (fs_seen_cites s \<or> has_cite_cell cells)
            then fs_header_rows s @ [i] else fs_header_rows s))"
  from False assms obtain tbl where
    "s' = s\<lparr>fs_table := tbl, fs_header_rows := hdr,
             fs_seen_cites := fs_seen_cites s \<or> has_cite_cell cells\<rparr>"
    unfolding fill_row_def row_header_rows_def Let_def n_cites_pos n_cites_zero incomplete_rule_def
      has_figure_cell_def hdr_def
    by (auto split: outcome.splits if_splits)
  with False show ?thesis
    by (auto simp: hdr_def header_rule_def)
qed

lemma fill_rows_snoc:
  "fill_rows n st i (rows @ [r]) =
     (case fill_rows n st i rows of
        Continue st' \<Rightarrow> fill_row n st' (i + length rows) r
      | Return_sentinel x \<Rightarrow> Return_sentinel x
      | Raise e \<Rightarrow> Raise e)"
  by (induction rows arbitrary: st i) (auto split: outcome.splits)

lemma fill_rows_invariant:
  "fill_rows n (initial_fill_state r c) 0 table_soup = Continue st \<Longrightarrow>
     fs_seen_cites st = list_ex has_cite_cell table_soup \<and>
     set (fs_header_rows st) = {i. i < length table_soup \<and> is_header_row n table_soup i} \<and>
     fs_incomplete_rows st =
       map (\<lambda>i. (i, map cell_text (table_soup ! i)))
         (filter (is_incomplete_row n table_soup) [0..<length table_soup])"
proof (induction table_soup arbitrary: st rule: rev_induct)
  case Nil
  then show ?case by (auto simp: initial_fill_state_def)
next
  case (snoc cells rows)
  from snoc.prems obtain st0 where st0: "fill_rows n (initial_fill_state r c) 0 rows = Continue st0"
    and row: "fill_row n st0 (length rows) cells = Continue st"
    unfolding fill_rows_snoc by (auto split: outcome.splits)
  note ih = snoc.IH [OF st0]
  note step = fill_row_Continue [OF row]
  have old_h: "is_header_row n (rows @ [cells]) i = is_header_row n rows i" if "i < length rows" for i
    using that by (simp add: is_header_row_def nth_append)
  have new_h: "is_header_row n (rows @ [cells]) (length rows) =
        header_rule n (list_ex has_cite_cell rows) (length rows) cells"
    by (simp add: is_header_row_def)
  have old_i: "is_incomplete_row n (rows @ [cells]) i = is_incomplete_row n rows i"
    if "i < length rows" for i
    using that by (simp add: is_incomplete_row_def nth_append)
  have new_i: "is_incomplete_row n (rows @ [cells]) (length rows) =
        incomplete_rule n (list_ex has_cite_cell rows) cells"
    by (simp add: is_incomplete_row_def)
  have 1: "fs_seen_cites st = list_ex has_cite_cell (rows @ [cells])"
    using step ih by simp
  have "{i. i < length (rows @ [cells]) \<and> is_header_row n (rows @ [cells]) i} =
        {i. i < length rows \<and> is_header_row n rows i} \<union>
        (if header_rule n (list_ex has_cite_cell rows) (length rows) cells then {length rows} else {})"
    using old_h new_h by (auto simp: less_Suc_eq)
  then have 2: "set (fs_header_rows st) =
        {i. i < length (rows @ [cells]) \<and> is_header_row n (rows @ [cells]) i}"
    using step ih by simp
  have f: "filter (is_incomplete_row n (rows @ [cells])) [0..<length rows] =
           filter (is_incomplete_row n rows) [0..<length rows]"
    by (rule filter_cong) (auto simp: old_i)
  have m: "map (\<lambda>i. (i, map cell_text ((rows @ [cells]) ! i)))
             (filter (is_incomplete_row n rows) [0..<length rows]) =
           map (\<lambda>i. (i, map cell_text (rows ! i)))
             (filter (is_incomplete_row n rows) [0..<length rows])"
    by (rule map_cong) (auto simp: nth_append)
  have 3: "fs_incomplete_rows st =
       map (\<lambda>i. (i, map cell_text ((rows @ [cells]) ! i)))
         (filter (is_incomplete_row n (rows @ [cells])) [0..<length (rows @ [cells])])"
    using step ih by (simp add: f m new_i)
  from 1 2 3 show ?case by blast
qed


lemma finish_table_incomplete:
  "finish_table st = Inr tj \<Longrightarrow> incomplete_rows tj = fs_incomplete_rows st"
  unfolding finish_table_def Let_def
  by (auto split: sum.splits if_splits prod.splits)

text \<open>
  C2 (as amended). When the loop of \<open>soup_to_json\<close> over the rows runs to its end, the
  header rows it has recorded are exactly the rows that the header rule names, and the
  incomplete rows are exactly the rows that the incomplete rule names, each with its index
  and the texts of its cells, in order; \<open>soup_to_json\<close> returns that list. A row with
  fewer cells than columns, read before any citation, is a header row and is written to the
  table even when a cell of it has a figure placeholder. For an incomplete row the step of
  the loop changes nothing in the table and goes on with the next row.
\<close>

theorem fill_rows_classifies_rows:
  "(fill_rows n (initial_fill_state r c) 0 table_soup = Continue st \<longrightarrow>
      set (fs_header_rows st) = {i. i < length table_soup \<and> is_header_row n table_soup i} \<and>
      fs_incomplete_rows st =
        map (\<lambda>i. (i, map cell_text (table_soup ! i)))
          (filter (is_incomplete_row n table_soup) [0..<length table_soup])) \<and>
   (incomplete_rule n (fs_seen_cites s) cells \<longrightarrow>
      (\<exists>header_rows.
         fill_row n s i cells =
           Continue (s\<lparr>fs_incomplete_rows := fs_incomplete_rows s @ [(i, map cell_text cells)],
                      fs_header_rows := header_rows,
                      fs_seen_cites := fs_seen_cites s \<or> has_cite_cell cells\<rparr>))) \<and>
   (num_cols table_soup = Inr n \<and>
    fill_rows n (initial_fill_state (length table_soup) (nat n)) 0 table_soup = Continue st \<and>
    soup_to_json table_soup = Inr tj \<longrightarrow>
      incomplete_rows tj =
        map (\<lambda>i. (i, map cell_text (table_soup ! i)))
          (filter (is_incomplete_row n table_soup) [0..<length table_soup]))"
proof (intro conjI impI)
  assume a: "fill_rows n (initial_fill_state r c) 0 table_soup = Continue st"
  from fill_rows_invariant [OF a]
  show "set (fs_header_rows st) = {i. i < length table_soup \<and> is_header_row n table_soup i}"
    and "fs_incomplete_rows st =
        map (\<lambda>i. (i, map cell_text (table_soup ! i)))
          (filter (is_incomplete_row n table_soup) [0..<length table_soup])"
    by simp_all
next
  assume "incomplete_rule n (fs_seen_cites s) cells"
  from fill_row_incomplete [OF this, of i]
  show "\<exists>header_rows.
         fill_row n s i cells =
           Continue (s\<lparr>fs_incomplete_rows := fs_incomplete_rows s @ [(i, map cell_text cells)],
                      fs_header_rows := header_rows,
                      fs_seen_cites := fs_seen_cites s \<or> has_cite_cell cells\<rparr>)"
    by blast
next
  assume a: "num_cols table_soup = Inr n \<and>
    fill_rows n (initial_fill_state (length table_soup) (nat n)) 0 table_soup = Continue st \<and>
    soup_to_json table_soup = Inr tj"
  then have nc: "num_cols table_soup = Inr n"
    and fr: "fill_rows n (initial_fill_state (length table_soup) (nat n)) 0 table_soup = Continue st"
    and sj: "soup_to_json table_soup = Inr tj"
    by simp_all
  have "finish_table st = Inr tj"
    using sj unfolding soup_to_json_def nc sum.case fr outcome.case .
  from finish_table_incomplete [OF this] fill_rows_invariant [OF fr]
  show "incomplete_rows tj =
        map (\<lambda>i. (i, map cell_text (table_soup ! i)))
          (filter (is_incomplete_row n table_soup) [0..<length table_soup])"
    by simp
qed

theorem fill_rows_classifies_rows_witness:
  "num_cols mixed_rows_soup = Inr 2 \<and>
   fill_rows 2 (initial_fill_state 6 2) 0 mixed_rows_soup =
     Continue \<lparr>fs_table = [[''Models'', ''Models''], [''Name'', ''Task''], [''x'', []], [[], []],
                             [''{{cite:0123456}}'', ''LM''], [[], []]],
               fs_incomplete_rows = [(3, [''{{cite:abc1234}}'', ''{{figure:1}}'']), (5, [''short''])],
               fs_header_rows = [0, 0, 1, 2], fs_seen_cites = True\<rparr> \<and>
   {i. i < length mixed_rows_soup \<and> is_header_row 2 mixed_rows_soup i} = {0, 1, 2} \<and>
   filter (is_incomplete_row 2 mixed_rows_soup) [0..<length mixed_rows_soup] = [3, 5]"
proof -
  have n: "num_cols mixed_rows_soup = Inr 2"
    by code_simp
  have f: "fill_rows 2 (initial_fill_state 6 2) 0 mixed_rows_soup =
     Continue \<lparr>fs_table = [[''Models'', ''Models''], [''Name'', ''Task''], [''x'', []], [[], []],
                             [''{{cite:0123456}}'', ''LM''], [[], []]],
               fs_incomplete_rows = [(3, [''{{cite:abc1234}}'', ''{{figure:1}}'']), (5, [''short''])],
               fs_header_rows = [0, 0, 1, 2], fs_seen_cites = True\<rparr>"
    by code_simp
  have i: "filter (is_incomplete_row 2 mixed_rows_soup) [0..<length mixed_rows_soup] = [3, 5]"
    by code_simp
  let ?st = "\<lparr>fs_table = [[''Models'', ''Models''], [''Name'', ''Task''], [''x'', []], [[], []],
                             [''{{cite:0123456}}'', ''LM''], [[], []]],
               fs_incomplete_rows = [(3, [''{{cite:abc1234}}'', ''{{figure:1}}'']), (5, [''short''])],
               fs_header_rows = [0, 0, 1, 2], fs_seen_cites = True\<rparr>"
  from fill_rows_classifies_rows [of 2 6 2 mixed_rows_soup ?st] f
  have "set (fs_header_rows ?st) = {i. i < length mixed_rows_soup \<and> is_header_row 2 mixed_rows_soup i}"
    by blast
  then have "{i. i < length mixed_rows_soup \<and> is_header_row 2 mixed_rows_soup i} = {0, 1, 2}"
    by auto
  with n f i show ?thesis by simp
qed

text \<open>
  A row with a figure placeholder is not always an incomplete row: the first row here has
  one cell for two columns and comes before any citation, so it is a header row and its
  text is in the table.
\<close>

theorem figure_in_short_header_counterexample:
  "num_cols figure_header_soup = Inr 2 \<and>
   int (length (figure_header_soup ! 0)) < 2 \<and>
   has_figure_cell (figure_header_soup ! 0) \<and>
   fill_rows 2 (initial_fill_state 3 2) 0 figure_header_soup =
     Continue \<lparr>fs_table = [[''{{figure:1}}'', []], [''Model'', ''Task''], [''{{cite:abc1234}}'', ''QA'']],
               fs_incomplete_rows = [], fs_header_rows = [0, 0, 1], fs_seen_cites = True\<rparr> \<and>
   map_sum id incomplete_rows (soup_to_json figure_header_soup) = Inr []"
  by code_simp



lemma py_index_less: "py_index xs i = Some j \<Longrightarrow> j < length xs"
  by (auto simp: py_index_def split: if_splits)





lemma write_text_no_return: "write_text hdr row_i col tbl s \<noteq> Return_sentinel t"
  unfolding write_text_def Let_def
  by (auto split: option.splits)

















end
